theory Spec2Isabelle
  imports Main
begin

section \<open>Errors and their HTTP presentation\<close>

text \<open>
  Handlers throw; the catch block hands the error to \<open>errorHandler\<close>. An error is a
  value here. \<open>ApiError\<close> carries statusCode, message and code (utils/errors.ts); the
  other constructors are the library errors that \<open>errorHandler\<close> tells apart by name,
  and \<open>TypeError\<close> is the JavaScript error of reading a property of null.
  \<open>jwt_error\<close> are the two errors of jsonwebtoken's \<open>verify\<close> for a token without a
  not-before claim; the tokens signed here carry none.
\<close>

datatype jwt_error = JsonWebTokenError | TokenExpiredError

datatype error =
    ApiError nat string string
  | JwtError jwt_error
  | PrismaClientKnownRequestError string
  | PrismaClientValidationError
  | TypeError

definition badRequest :: "string \<Rightarrow> error" where
  "badRequest message = ApiError 400 message ''BAD_REQUEST''"

definition unauthorized :: "string \<Rightarrow> error" where
  "unauthorized message = ApiError 401 message ''UNAUTHORIZED''"

definition notFound :: "string \<Rightarrow> error" where
  "notFound resource = ApiError 404 (resource @ '' not found'') ''NOT_FOUND''"

definition conflict :: "string \<Rightarrow> error" where
  "conflict message = ApiError 409 message ''CONFLICT''"

text \<open>\<open>errorHandler\<close> (middleware/errorHandler.ts): the status and the error code sent.\<close>

fun errorHandler :: "error \<Rightarrow> nat \<times> string" where
  "errorHandler (ApiError statusCode message code) = (statusCode, code)"
| "errorHandler (JwtError JsonWebTokenError) = (401, ''INVALID_TOKEN'')"
| "errorHandler (JwtError TokenExpiredError) = (401, ''TOKEN_EXPIRED'')"
| "errorHandler (PrismaClientKnownRequestError code) =
     (if code = ''P2002'' then (409, ''DUPLICATE_ENTRY'')
      else if code = ''P2025'' then (404, ''NOT_FOUND'')
      else (500, ''INTERNAL_ERROR''))"
| "errorHandler PrismaClientValidationError = (500, ''INTERNAL_ERROR'')"
| "errorHandler TypeError = (500, ''INTERNAL_ERROR'')"

text \<open>A request fails Unauthorized when it is answered with status 401, and fails
  BadRequest when it is answered with status 400.\<close>

definition failsWith :: "nat \<Rightarrow> error + 'a \<Rightarrow> bool" where
  "failsWith status r = (case r of Inl e \<Rightarrow> fst (errorHandler e) = status | Inr _ \<Rightarrow> False)"

definition failsUnauthorized :: "error + 'a \<Rightarrow> bool" where
  "failsUnauthorized r = failsWith 401 r"

definition failsBadRequest :: "error + 'a \<Rightarrow> bool" where
  "failsBadRequest r = failsWith 400 r"

section \<open>JSON values\<close>

text \<open>
  Request bodies and the step payload are JSON. Numbers are kept as integers: the
  handlers only ask whether a number is zero. \<open>truthy\<close> is JavaScript's ToBoolean on
  these values; \<open>None\<close> of a \<open>json option\<close> stands for \<open>undefined\<close>.
\<close>

datatype json =
    JNull
  | JBool bool
  | JNum int
  | JStr string
  | JArr "json list"
  | JObj "(string \<times> json) list"

fun truthy :: "json \<Rightarrow> bool" where
  "truthy JNull = False"
| "truthy (JBool b) = b"
| "truthy (JNum n) = (n \<noteq> 0)"
| "truthy (JStr s) = (s \<noteq> [])"
| "truthy (JArr xs) = True"
| "truthy (JObj kvs) = True"

text \<open>\<open>v.k\<close>: the property of an object (the last binding of the key wins, as in
  JSON.parse); other values have no such property.\<close>

fun jsonField :: "string \<Rightarrow> json \<Rightarrow> json option" where
  "jsonField k (JObj kvs) = map_of (rev kvs) k"
| "jsonField k v = None"

text \<open>\<open>x || undefined\<close>\<close>

definition orUndefined :: "json option \<Rightarrow> json option" where
  "orUndefined x = (case x of None \<Rightarrow> None | Some v \<Rightarrow> if truthy v then Some v else None)"

section \<open>The relational schema\<close>

text \<open>
  One record per table of the migrations; a table is the list of its rows in insertion
  order. Timestamps are milliseconds since the epoch. The three token tables have the
  same columns.
\<close>

datatype Role = USER | ADMIN

datatype OnboardingStatus = OS_PENDING | OS_IN_PROGRESS | OS_COMPLETED

datatype StepStatus = SS_PENDING | SS_IN_PROGRESS | SS_COMPLETED | SS_SKIPPED

datatype DocumentCategory = ID_DOCUMENT | BUSINESS_LICENSE | TAX_DOCUMENT | PROOF_OF_ADDRESS | OTHER

datatype DocumentVerificationStatus = PENDING | APPROVED | REJECTED

record client =
  c_id :: string
  c_email :: string
  c_passwordHash :: string
  c_firstName :: string
  c_lastName :: string
  c_companyName :: "string option"
  c_phone :: "string option"
  c_avatarUrl :: "string option"
  c_emailVerified :: bool
  c_role :: Role
  c_createdAt :: nat

record token_row =
  t_id :: string
  t_token :: string
  t_clientId :: string
  t_expiresAt :: nat
  t_createdAt :: nat

record onboarding_step =
  s_id :: string
  s_stepNumber :: int
  s_name :: string
  s_title :: string
  s_description :: string
  s_isRequired :: bool

record onboarding_progress =
  p_id :: string
  p_clientId :: string
  p_currentStep :: int
  p_status :: OnboardingStatus
  p_completedAt :: "nat option"
  p_createdAt :: nat

record step_progress =
  sp_id :: string
  sp_onboardingProgressId :: string
  sp_onboardingStepId :: string
  sp_status :: StepStatus
  sp_data :: "json option"
  sp_completedAt :: "nat option"

record document =
  d_id :: string
  d_clientId :: string
  d_fileName :: string
  d_fileUrl :: string
  d_fileKey :: string
  d_fileType :: string
  d_fileSize :: int
  d_category :: DocumentCategory
  d_uploadedAt :: nat
  d_verificationStatus :: DocumentVerificationStatus
  d_rejectionReason :: "string option"
  d_verifiedAt :: "nat option"

record admin_activity_log =
  l_id :: string
  l_adminId :: string
  l_action :: string
  l_targetType :: string
  l_targetId :: string
  l_details :: "json option"
  l_createdAt :: nat

text \<open>The database, and the mail handed to the email service (recipient, first name,
  token): the service catches its own failures, so handing over never throws.\<close>

record db =
  clients :: "client list"
  refreshTokens :: "token_row list"
  passwordResetTokens :: "token_row list"
  emailVerificationTokens :: "token_row list"
  onboardingSteps :: "onboarding_step list"
  onboardingProgress :: "onboarding_progress list"
  stepProgress :: "step_progress list"
  documents :: "document list"
  adminActivityLogs :: "admin_activity_log list"
  verificationMail :: "(string \<times> string \<times> string) list"
  passwordResetMail :: "(string \<times> string \<times> string) list"

section \<open>What a request takes from outside the code\<close>

record token_payload =
  tp_clientId :: string
  tp_email :: string
  tp_type :: string

record jwt_config =
  accessSecret :: string
  refreshSecret :: string
  accessExpiresIn :: string
  refreshExpiresIn :: string

text \<open>
  The libraries and the surroundings of one request: the clock (\<open>Date.now()\<close>, read
  once per request), the ids Prisma generates for created rows (\<open>newId env k\<close> is the
  k-th of the request), \<open>crypto.randomBytes(32).toString('hex')\<close>, jsonwebtoken's
  \<open>sign\<close> and \<open>verify\<close> (payload or token, secret, lifetime; both read the clock),
  bcryptjs's \<open>hash\<close> and \<open>compare\<close>, and the configuration.
\<close>

record env =
  clock :: nat
  newId :: "nat \<Rightarrow> string"
  randomHex :: string
  jwt_sign :: "nat \<Rightarrow> token_payload \<Rightarrow> string \<Rightarrow> string \<Rightarrow> string"
  jwt_verify :: "nat \<Rightarrow> string \<Rightarrow> string \<Rightarrow> jwt_error + token_payload"
  bcrypt_hash :: "string \<Rightarrow> nat \<Rightarrow> string"
  bcrypt_compare :: "string \<Rightarrow> string \<Rightarrow> bool"
  jwt :: jwt_config

section \<open>utils/jwt.ts and utils/hash.ts\<close>

definition generateAccessToken :: "env \<Rightarrow> string \<Rightarrow> string \<Rightarrow> string" where
  "generateAccessToken env clientId email =
     jwt_sign env (clock env) \<lparr>tp_clientId = clientId, tp_email = email, tp_type = ''access''\<rparr>
       (accessSecret (jwt env)) (accessExpiresIn (jwt env))"

definition generateRefreshToken :: "env \<Rightarrow> string \<Rightarrow> string \<Rightarrow> string" where
  "generateRefreshToken env clientId email =
     jwt_sign env (clock env) \<lparr>tp_clientId = clientId, tp_email = email, tp_type = ''refresh''\<rparr>
       (refreshSecret (jwt env)) (refreshExpiresIn (jwt env))"

definition verifyAccessToken :: "env \<Rightarrow> string \<Rightarrow> error + token_payload" where
  "verifyAccessToken env token =
     (case jwt_verify env (clock env) token (accessSecret (jwt env)) of
        Inl e \<Rightarrow> Inl (JwtError e)
      | Inr payload \<Rightarrow> Inr payload)"

definition verifyRefreshToken :: "env \<Rightarrow> string \<Rightarrow> error + token_payload" where
  "verifyRefreshToken env token =
     (case jwt_verify env (clock env) token (refreshSecret (jwt env)) of
        Inl e \<Rightarrow> Inl (JwtError e)
      | Inr payload \<Rightarrow> Inr payload)"

text \<open>The regular expression \<open>^(\d+)([smhd])$\<close> and \<open>parseInt(_, 10)\<close> on its digits.\<close>

definition isDigit :: "char \<Rightarrow> bool" where
  "isDigit c = (48 \<le> (of_char c :: nat) \<and> (of_char c :: nat) \<le> 57)"

definition parseInt10 :: "string \<Rightarrow> nat" where
  "parseInt10 ds = foldl (\<lambda>n c. 10 * n + ((of_char c :: nat) - 48)) 0 ds"

definition matchExpiresIn :: "string \<Rightarrow> (nat \<times> char) option" where
  "matchExpiresIn s =
     (if 2 \<le> length s \<and> list_all isDigit (butlast s) \<and> last s \<in> set ''smhd''
      then Some (parseInt10 (butlast s), last s) else None)"

definition multipliers :: "char \<Rightarrow> nat" where
  "multipliers unit =
     (if unit = CHR ''s'' then 1000
      else if unit = CHR ''m'' then 60 * 1000
      else if unit = CHR ''h'' then 60 * 60 * 1000
      else 24 * 60 * 60 * 1000)"

definition getRefreshTokenExpiry :: "env \<Rightarrow> nat" where
  "getRefreshTokenExpiry env =
     (case matchExpiresIn (refreshExpiresIn (jwt env)) of
        None \<Rightarrow> clock env + 7 * 24 * 60 * 60 * 1000
      | Some (v, unit) \<Rightarrow> clock env + v * multipliers unit)"

definition SALT_ROUNDS :: nat where
  "SALT_ROUNDS = 12"

definition hashPassword :: "env \<Rightarrow> string \<Rightarrow> string" where
  "hashPassword env password = bcrypt_hash env password SALT_ROUNDS"

definition comparePassword :: "env \<Rightarrow> string \<Rightarrow> string \<Rightarrow> bool" where
  "comparePassword env password hash = bcrypt_compare env password hash"

section \<open>Prisma operations on a table\<close>

text \<open>
  \<open>findUnique\<close> and \<open>findFirst\<close> are \<open>find\<close>; \<open>deleteMany\<close> and \<open>delete\<close> of a row
  just read filter the table; \<open>updateMany\<close> and \<open>update\<close> map over it. \<open>create\<close> on
  a token table is refused by the database when the primary key or the unique index on
  \<open>token\<close> is already taken (P2002), or when the client does not exist (P2003).
\<close>

definition deleteMany :: "('r \<Rightarrow> bool) \<Rightarrow> 'r list \<Rightarrow> 'r list" where
  "deleteMany P rows = filter (\<lambda>r. \<not> P r) rows"

definition updateMany :: "('r \<Rightarrow> bool) \<Rightarrow> ('r \<Rightarrow> 'r) \<Rightarrow> 'r list \<Rightarrow> 'r list" where
  "updateMany P f rows = map (\<lambda>r. if P r then f r else r) rows"

definition createToken :: "client list \<Rightarrow> token_row \<Rightarrow> token_row list \<Rightarrow> error + token_row list" where
  "createToken cs row rows =
     (if \<exists>r \<in> set rows. t_id r = t_id row \<or> t_token r = t_token row
      then Inl (PrismaClientKnownRequestError ''P2002'')
      else if \<not> (\<exists>c \<in> set cs. c_id c = t_clientId row)
      then Inl (PrismaClientKnownRequestError ''P2003'')
      else Inr (rows @ [row]))"

section \<open>The auth controller\<close>

text \<open>JavaScript's \<open>toLowerCase\<close> on the ASCII letters; the email schemas admit no
  other letters.\<close>

definition lowerChar :: "char \<Rightarrow> char" where
  "lowerChar c =
     (case map_of (zip ''ABCDEFGHIJKLMNOPQRSTUVWXYZ'' ''abcdefghijklmnopqrstuvwxyz'') c of
        Some l \<Rightarrow> l
      | None \<Rightarrow> c)"

definition toLowerCase :: "string \<Rightarrow> string" where
  "toLowerCase s = map lowerChar s"

record tokens =
  accessToken :: string
  refreshToken :: string

subsection \<open>POST /auth/refresh\<close>

definition refresh :: "env \<Rightarrow> string \<Rightarrow> db \<Rightarrow> (error + tokens) \<times> db" where
  "refresh env presented db =
     (case verifyRefreshToken env presented of
        Inl e \<Rightarrow> (Inl e, db)
      | Inr payload \<Rightarrow>
          if tp_type payload \<noteq> ''refresh'' then (Inl (unauthorized ''Invalid token type''), db)
          else
            (case find (\<lambda>r. t_token r = presented) (refreshTokens db) of
               None \<Rightarrow> (Inl (unauthorized ''Invalid refresh token''), db)
             | Some storedToken \<Rightarrow>
                 let storedClient = find (\<lambda>c. c_id c = t_clientId storedToken) (clients db);
                     db1 = db\<lparr>refreshTokens :=
                              deleteMany (\<lambda>r. t_id r = t_id storedToken) (refreshTokens db)\<rparr>
                 in
                 if t_expiresAt storedToken < clock env
                 then (Inl (unauthorized ''Refresh token expired''), db1)
                 else
                   (case storedClient of
                      None \<Rightarrow> (Inl TypeError, db1)
                    | Some c \<Rightarrow>
                        let newAccessToken = generateAccessToken env (c_id c) (c_email c);
                            newRefreshToken = generateRefreshToken env (c_id c) (c_email c)
                        in
                        (case createToken (clients db1)
                                \<lparr>t_id = newId env 0, t_token = newRefreshToken,
                                 t_clientId = c_id c, t_expiresAt = getRefreshTokenExpiry env,
                                 t_createdAt = clock env\<rparr> (refreshTokens db1) of
                           Inl e \<Rightarrow> (Inl e, db1)
                         | Inr rows \<Rightarrow>
                             (Inr \<lparr>accessToken = newAccessToken, refreshToken = newRefreshToken\<rparr>,
                              db1\<lparr>refreshTokens := rows\<rparr>)))))"


subsection \<open>POST /auth/login\<close>

record login_client =
  lc_id :: string
  lc_email :: string
  lc_firstName :: string
  lc_lastName :: string
  lc_companyName :: "string option"
  lc_avatarUrl :: "string option"

record login_response =
  lr_client :: login_client
  lr_tokens :: tokens

definition login :: "env \<Rightarrow> string \<Rightarrow> string \<Rightarrow> db \<Rightarrow> (error + login_response) \<times> db" where
  "login env email password db =
     (case find (\<lambda>c. c_email c = toLowerCase email) (clients db) of
        None \<Rightarrow> (Inl (unauthorized ''Invalid email or password''), db)
      | Some c \<Rightarrow>
          if \<not> comparePassword env password (c_passwordHash c)
          then (Inl (unauthorized ''Invalid email or password''), db)
          else
            let newAccessToken = generateAccessToken env (c_id c) (c_email c);
                newRefreshToken = generateRefreshToken env (c_id c) (c_email c)
            in
            (case createToken (clients db)
                    \<lparr>t_id = newId env 0, t_token = newRefreshToken, t_clientId = c_id c,
                     t_expiresAt = getRefreshTokenExpiry env, t_createdAt = clock env\<rparr>
                    (refreshTokens db) of
               Inl e \<Rightarrow> (Inl e, db)
             | Inr rows \<Rightarrow>
                 (Inr \<lparr>lr_client =
                         \<lparr>lc_id = c_id c, lc_email = c_email c, lc_firstName = c_firstName c,
                          lc_lastName = c_lastName c, lc_companyName = c_companyName c,
                          lc_avatarUrl = c_avatarUrl c\<rparr>,
                       lr_tokens = \<lparr>accessToken = newAccessToken, refreshToken = newRefreshToken\<rparr>\<rparr>,
                  db\<lparr>refreshTokens := rows\<rparr>)))"

subsection \<open>POST /auth/signup\<close>

record signup_client =
  sc_id :: string
  sc_email :: string
  sc_firstName :: string
  sc_lastName :: string
  sc_createdAt :: nat

record signup_response =
  sr_client :: signup_client
  sr_tokens :: tokens

text \<open>\<open>prisma.client.create\<close> with the nested onboarding progress: one statement, refused
  as a whole when a primary key, the unique email or the unique clientId is taken.\<close>

definition createClient :: "client \<Rightarrow> onboarding_progress \<Rightarrow> db \<Rightarrow> error + db" where
  "createClient c p db =
     (if (\<exists>x \<in> set (clients db). c_id x = c_id c \<or> c_email x = c_email c)
         \<or> (\<exists>x \<in> set (onboardingProgress db). p_id x = p_id p \<or> p_clientId x = p_clientId p)
      then Inl (PrismaClientKnownRequestError ''P2002'')
      else Inr (db\<lparr>clients := clients db @ [c], onboardingProgress := onboardingProgress db @ [p]\<rparr>))"

definition signup ::
  "env \<Rightarrow> string \<Rightarrow> string \<Rightarrow> string \<Rightarrow> string \<Rightarrow> db \<Rightarrow> (error + signup_response) \<times> db" where
  "signup env email password firstName lastName db =
     (case find (\<lambda>c. c_email c = toLowerCase email) (clients db) of
        Some existingClient \<Rightarrow> (Inl (conflict ''Email already registered''), db)
      | None \<Rightarrow>
          let passwordHash = hashPassword env password;
              c = \<lparr>c_id = newId env 0, c_email = toLowerCase email, c_passwordHash = passwordHash,
                   c_firstName = firstName, c_lastName = lastName, c_companyName = None,
                   c_phone = None, c_avatarUrl = None, c_emailVerified = False, c_role = USER,
                   c_createdAt = clock env\<rparr>;
              p = \<lparr>p_id = newId env 1, p_clientId = c_id c, p_currentStep = 1,
                   p_status = OS_PENDING, p_completedAt = None, p_createdAt = clock env\<rparr>
          in
          (case createClient c p db of
             Inl e \<Rightarrow> (Inl e, db)
           | Inr db1 \<Rightarrow>
               let newAccessToken = generateAccessToken env (c_id c) (c_email c);
                   newRefreshToken = generateRefreshToken env (c_id c) (c_email c)
               in
               (case createToken (clients db1)
                       \<lparr>t_id = newId env 2, t_token = newRefreshToken, t_clientId = c_id c,
                        t_expiresAt = getRefreshTokenExpiry env, t_createdAt = clock env\<rparr>
                       (refreshTokens db1) of
                  Inl e \<Rightarrow> (Inl e, db1)
                | Inr rows \<Rightarrow>
                    let db2 = db1\<lparr>refreshTokens := rows\<rparr>;
                        verificationToken = randomHex env
                    in
                    (case createToken (clients db2)
                            \<lparr>t_id = newId env 3, t_token = verificationToken, t_clientId = c_id c,
                             t_expiresAt = clock env + 24 * 60 * 60 * 1000,
                             t_createdAt = clock env\<rparr>
                            (emailVerificationTokens db2) of
                       Inl e \<Rightarrow> (Inl e, db2)
                     | Inr vrows \<Rightarrow>
                         (Inr \<lparr>sr_client =
                                 \<lparr>sc_id = c_id c, sc_email = c_email c, sc_firstName = c_firstName c,
                                  sc_lastName = c_lastName c, sc_createdAt = c_createdAt c\<rparr>,
                               sr_tokens =
                                 \<lparr>accessToken = newAccessToken, refreshToken = newRefreshToken\<rparr>\<rparr>,
                          db2\<lparr>emailVerificationTokens := vrows,
                              verificationMail :=
                                verificationMail db2 @ [(c_email c, c_firstName c, verificationToken)]\<rparr>)))))"

subsection \<open>POST /auth/forgot-password and /auth/reset-password\<close>

record message_response =
  success :: bool
  message :: string

definition forgotPassword :: "env \<Rightarrow> string \<Rightarrow> db \<Rightarrow> (error + message_response) \<times> db" where
  "forgotPassword env email db =
     (case find (\<lambda>c. c_email c = toLowerCase email) (clients db) of
        None \<Rightarrow>
          (Inr \<lparr>success = True,
                message = ''If an account with that email exists, a password reset link has been sent.''\<rparr>,
           db)
      | Some c \<Rightarrow>
          let db1 = db\<lparr>passwordResetTokens :=
                         deleteMany (\<lambda>r. t_clientId r = c_id c) (passwordResetTokens db)\<rparr>;
              resetToken = randomHex env
          in
          (case createToken (clients db1)
                  \<lparr>t_id = newId env 0, t_token = resetToken, t_clientId = c_id c,
                   t_expiresAt = clock env + 60 * 60 * 1000, t_createdAt = clock env\<rparr>
                  (passwordResetTokens db1) of
             Inl e \<Rightarrow> (Inl e, db1)
           | Inr rows \<Rightarrow>
               (Inr \<lparr>success = True,
                     message = ''If an account with that email exists, a password reset link has been sent.''\<rparr>,
                db1\<lparr>passwordResetTokens := rows,
                    passwordResetMail :=
                      passwordResetMail db1 @ [(c_email c, c_firstName c, resetToken)]\<rparr>)))"

definition resetPassword :: "env \<Rightarrow> string \<Rightarrow> string \<Rightarrow> db \<Rightarrow> (error + message_response) \<times> db" where
  "resetPassword env token password db =
     (case find (\<lambda>r. t_token r = token) (passwordResetTokens db) of
        None \<Rightarrow> (Inl (badRequest ''Invalid or expired reset token''), db)
      | Some resetToken \<Rightarrow>
          if t_expiresAt resetToken < clock env
          then (Inl (badRequest ''Reset token has expired''),
                db\<lparr>passwordResetTokens :=
                     deleteMany (\<lambda>r. t_id r = t_id resetToken) (passwordResetTokens db)\<rparr>)
          else
            let passwordHash = hashPassword env password in
            if \<not> (\<exists>c \<in> set (clients db). c_id c = t_clientId resetToken)
            then (Inl (PrismaClientKnownRequestError ''P2025''), db)
            else
              let db1 = db\<lparr>clients :=
                             updateMany (\<lambda>c. c_id c = t_clientId resetToken)
                               (\<lambda>c. c\<lparr>c_passwordHash := passwordHash\<rparr>) (clients db)\<rparr>;
                  db2 = db1\<lparr>passwordResetTokens :=
                              deleteMany (\<lambda>r. t_clientId r = t_clientId resetToken)
                                (passwordResetTokens db1)\<rparr>;
                  db3 = db2\<lparr>refreshTokens :=
                              deleteMany (\<lambda>r. t_clientId r = t_clientId resetToken)
                                (refreshTokens db2)\<rparr>
              in
              (Inr \<lparr>success = True,
                    message = ''Password reset successfully. Please log in with your new password.''\<rparr>,
               db3))"

text \<open>The two success responses, by name.\<close>

definition forgotPasswordResponse :: message_response where
  "forgotPasswordResponse =
     \<lparr>success = True,
      message = ''If an account with that email exists, a password reset link has been sent.''\<rparr>"

definition resetPasswordResponse :: message_response where
  "resetPasswordResponse =
     \<lparr>success = True,
      message = ''Password reset successfully. Please log in with your new password.''\<rparr>"

section \<open>The onboarding controller\<close>

text \<open>Template literals print numbers in decimal.\<close>

fun showNat :: "nat \<Rightarrow> string" where
  "showNat n =
     (if n < 10 then [''0123456789'' ! n]
      else showNat (n div 10) @ [''0123456789'' ! (n mod 10)])"

declare showNat.simps [simp del]

definition showInt :: "int \<Rightarrow> string" where
  "showInt i = (if i < 0 then ''-'' @ showNat (nat (- i)) else showNat (nat i))"

text \<open>
  A value handed to Prisma for a text column: \<open>undefined\<close> leaves the column as it
  is, a string is written, and anything else is refused by Prisma's validation of the
  arguments before the statement is run. (The operation form \<open>{set: ...}\<close> is not
  told apart from other objects.)
\<close>

definition textArg :: "json option \<Rightarrow> error + string option" where
  "textArg x =
     (case x of
        None \<Rightarrow> Inr None
      | Some (JStr s) \<Rightarrow> Inr (Some s)
      | Some _ \<Rightarrow> Inl PrismaClientValidationError)"

definition dataField :: "string \<Rightarrow> json option \<Rightarrow> json option" where
  "dataField k data = (case data of None \<Rightarrow> None | Some v \<Rightarrow> jsonField k v)"

text \<open>The profile update of step 1:
  \<open>firstName: data.firstName || undefined\<close>, and so on for the four columns.\<close>

definition updateProfileFromStep :: "string \<Rightarrow> json option \<Rightarrow> db \<Rightarrow> error + db" where
  "updateProfileFromStep clientId data db =
     (case textArg (orUndefined (dataField ''firstName'' data)) of
        Inl e \<Rightarrow> Inl e
      | Inr firstName \<Rightarrow>
     (case textArg (orUndefined (dataField ''lastName'' data)) of
        Inl e \<Rightarrow> Inl e
      | Inr lastName \<Rightarrow>
     (case textArg (orUndefined (dataField ''companyName'' data)) of
        Inl e \<Rightarrow> Inl e
      | Inr companyName \<Rightarrow>
     (case textArg (orUndefined (dataField ''phone'' data)) of
        Inl e \<Rightarrow> Inl e
      | Inr phone \<Rightarrow>
          if \<not> (\<exists>c \<in> set (clients db). c_id c = clientId)
          then Inl (PrismaClientKnownRequestError ''P2025'')
          else Inr (db\<lparr>clients :=
                 updateMany (\<lambda>c. c_id c = clientId)
                   (\<lambda>c. c\<lparr>c_firstName := (case firstName of None \<Rightarrow> c_firstName c | Some v \<Rightarrow> v),
                          c_lastName := (case lastName of None \<Rightarrow> c_lastName c | Some v \<Rightarrow> v),
                          c_companyName := (case companyName of None \<Rightarrow> c_companyName c | Some v \<Rightarrow> Some v),
                          c_phone := (case phone of None \<Rightarrow> c_phone c | Some v \<Rightarrow> Some v)\<rparr>)
                   (clients db)\<rparr>)))))"

text \<open>\<open>findUnique\<close> of the client's progress, created when missing (the create is
  refused when the id is taken or the client does not exist).\<close>

definition getOrCreateProgress :: "env \<Rightarrow> string \<Rightarrow> db \<Rightarrow> error + onboarding_progress \<times> db" where
  "getOrCreateProgress env clientId db =
     (case find (\<lambda>p. p_clientId p = clientId) (onboardingProgress db) of
        Some progress \<Rightarrow> Inr (progress, db)
      | None \<Rightarrow>
          let progress = \<lparr>p_id = newId env 0, p_clientId = clientId, p_currentStep = 1,
                          p_status = OS_IN_PROGRESS, p_completedAt = None, p_createdAt = clock env\<rparr>
          in
          if \<exists>x \<in> set (onboardingProgress db). p_id x = p_id progress
          then Inl (PrismaClientKnownRequestError ''P2002'')
          else if \<not> (\<exists>c \<in> set (clients db). c_id c = clientId)
          then Inl (PrismaClientKnownRequestError ''P2003'')
          else Inr (progress, db\<lparr>onboardingProgress := onboardingProgress db @ [progress]\<rparr>))"

text \<open>The upsert of \<open>completeStep\<close> on the unique pair (progress, step): the row is
  updated when it exists (\<open>data: data || undefined\<close> leaves the stored data when
  there is none), created otherwise.\<close>

definition upsertCompleted ::
  "env \<Rightarrow> string \<Rightarrow> string \<Rightarrow> json option \<Rightarrow> step_progress list \<Rightarrow> error + step_progress list" where
  "upsertCompleted env progressId stepId data rows =
     (if \<exists>r \<in> set rows. sp_onboardingProgressId r = progressId \<and> sp_onboardingStepId r = stepId
      then Inr (updateMany
                  (\<lambda>r. sp_onboardingProgressId r = progressId \<and> sp_onboardingStepId r = stepId)
                  (\<lambda>r. r\<lparr>sp_data := (case orUndefined data of None \<Rightarrow> sp_data r | Some v \<Rightarrow> Some v),
                         sp_status := SS_COMPLETED, sp_completedAt := Some (clock env)\<rparr>)
                  rows)
      else if \<exists>r \<in> set rows. sp_id r = newId env 1
      then Inl (PrismaClientKnownRequestError ''P2002'')
      else Inr (rows @
                [\<lparr>sp_id = newId env 1, sp_onboardingProgressId = progressId,
                  sp_onboardingStepId = stepId, sp_status = SS_COMPLETED,
                  sp_data = orUndefined data, sp_completedAt = Some (clock env)\<rparr>]))"

record complete_response =
  cr_message :: string
  cr_currentStep :: int
  cr_status :: OnboardingStatus
  cr_completedAt :: "nat option"

subsection \<open>POST /onboarding/steps/:stepNumber/complete\<close>

definition completeStep ::
  "env \<Rightarrow> string \<Rightarrow> int \<Rightarrow> json option \<Rightarrow> db \<Rightarrow> (error + complete_response) \<times> db" where
  "completeStep env clientId stepNumber data db =
     (case find (\<lambda>s. s_stepNumber s = stepNumber) (onboardingSteps db) of
        None \<Rightarrow> (Inl (notFound ''Onboarding step''), db)
      | Some step \<Rightarrow>
     (case getOrCreateProgress env clientId db of
        Inl e \<Rightarrow> (Inl e, db)
      | Inr (progress, db1) \<Rightarrow>
          if stepNumber > p_currentStep progress
          then (Inl (badRequest ''Cannot complete a step ahead of current progress''), db1)
          else
     (case upsertCompleted env (p_id progress) (s_id step) data (stepProgress db1) of
        Inl e \<Rightarrow> (Inl e, db1)
      | Inr rows \<Rightarrow>
          let db2 = db1\<lparr>stepProgress := rows\<rparr>;
              totalSteps = int (length (onboardingSteps db2));
              isLastStep = (stepNumber = totalSteps);
              nextStep = min (stepNumber + 1) totalSteps;
              db3 = db2\<lparr>onboardingProgress :=
                          updateMany (\<lambda>p. p_id p = p_id progress)
                            (\<lambda>p. p\<lparr>p_currentStep := (if isLastStep then stepNumber else nextStep),
                                   p_status := (if isLastStep then OS_COMPLETED else OS_IN_PROGRESS),
                                   p_completedAt := (if isLastStep then Some (clock env) else None)\<rparr>)
                            (onboardingProgress db2)\<rparr>
          in
     (case (if stepNumber = 1 \<and> orUndefined data \<noteq> None
            then updateProfileFromStep clientId data db3 else Inr db3) of
        Inl e \<Rightarrow> (Inl e, db3)
      | Inr db4 \<Rightarrow>
     (case find (\<lambda>p. p_clientId p = clientId) (onboardingProgress db4) of
        None \<Rightarrow> (Inl TypeError, db4)
      | Some updatedProgress \<Rightarrow>
          (Inr \<lparr>cr_message =
                  (if isLastStep then ''Onboarding completed!''
                   else ''Step '' @ showInt stepNumber @ '' completed. Proceed to step ''
                          @ showInt nextStep @ ''.''),
                cr_currentStep = p_currentStep updatedProgress,
                cr_status = p_status updatedProgress,
                cr_completedAt = p_completedAt updatedProgress\<rparr>,
           db4))))))"

subsection \<open>Parts and effects of \<open>completeStep\<close>, by name\<close>

text \<open>
  \<open>profileFieldsOk\<close>: each of the four profile fields of the payload is absent, falsy or a
  string, so that the update of the client is accepted; \<open>mergeAccepted\<close>: the request does
  not reach that update, or the update is accepted and the client exists.
  \<open>completedProgress\<close> is the row written over the client's progress, \<open>completedMessage\<close>
  the message of the response, \<open>progressed\<close> the database after the upsert and the update
  of the progress. \<open>stepRow\<close> picks the step-progress rows of a progress and a step,
  \<open>completedRow\<close> says that such a row is COMPLETED at the time of the request with the
  payload given (when there is one). \<open>catalogNumbered\<close>: the steps of the catalog are
  numbered from 1 to their count, without repeats.
\<close>

definition textOrAbsent :: "json option \<Rightarrow> bool" where
  "textOrAbsent x = (case orUndefined x of None \<Rightarrow> True | Some (JStr s) \<Rightarrow> True | Some _ \<Rightarrow> False)"

definition profileFieldsOk :: "json option \<Rightarrow> bool" where
  "profileFieldsOk data =
     (textOrAbsent (dataField ''firstName'' data) \<and> textOrAbsent (dataField ''lastName'' data) \<and>
      textOrAbsent (dataField ''companyName'' data) \<and> textOrAbsent (dataField ''phone'' data))"

definition mergeAccepted :: "string \<Rightarrow> int \<Rightarrow> json option \<Rightarrow> db \<Rightarrow> bool" where
  "mergeAccepted clientId stepNumber data db =
     (if stepNumber = 1 \<and> orUndefined data \<noteq> None
      then profileFieldsOk data \<and> (\<exists>c \<in> set (clients db). c_id c = clientId)
      else True)"

definition completedProgress :: "env \<Rightarrow> int \<Rightarrow> int \<Rightarrow> onboarding_progress \<Rightarrow> onboarding_progress" where
  "completedProgress env stepNumber totalSteps p =
     p\<lparr>p_currentStep := (if stepNumber = totalSteps then stepNumber else min (stepNumber + 1) totalSteps),
       p_status := (if stepNumber = totalSteps then OS_COMPLETED else OS_IN_PROGRESS),
       p_completedAt := (if stepNumber = totalSteps then Some (clock env) else None)\<rparr>"

definition completedMessage :: "int \<Rightarrow> int \<Rightarrow> string" where
  "completedMessage stepNumber totalSteps =
     (if stepNumber = totalSteps then ''Onboarding completed!''
      else ''Step '' @ showInt stepNumber @ '' completed. Proceed to step ''
             @ showInt (min (stepNumber + 1) totalSteps) @ ''.'')"

definition progressed :: "env \<Rightarrow> int \<Rightarrow> onboarding_progress \<Rightarrow> step_progress list \<Rightarrow> db \<Rightarrow> db" where
  "progressed env stepNumber progress rows db =
     db\<lparr>stepProgress := rows,
        onboardingProgress :=
          map (\<lambda>p. if p_id p = p_id progress
                   then completedProgress env stepNumber (int (length (onboardingSteps db))) p else p)
            (onboardingProgress db)\<rparr>"

definition stepRow :: "onboarding_progress \<Rightarrow> onboarding_step \<Rightarrow> step_progress \<Rightarrow> bool" where
  "stepRow progress step r =
     (sp_onboardingProgressId r = p_id progress \<and> sp_onboardingStepId r = s_id step)"

definition completedRow :: "env \<Rightarrow> json option \<Rightarrow> step_progress \<Rightarrow> bool" where
  "completedRow env data r =
     (sp_status r = SS_COMPLETED \<and> sp_completedAt r = Some (clock env) \<and>
      (case orUndefined data of None \<Rightarrow> True | Some v \<Rightarrow> sp_data r = Some v))"

definition catalogNumbered :: "db \<Rightarrow> bool" where
  "catalogNumbered db =
     (distinct (map s_stepNumber (onboardingSteps db)) \<and>
      list_all (\<lambda>s. 1 \<le> s_stepNumber s \<and> s_stepNumber s \<le> int (length (onboardingSteps db)))
        (onboardingSteps db))"

section \<open>The admin controller\<close>

text \<open>
  \<open>updateDocumentStatusSchema\<close> and \<open>bulkApproveSchema\<close> applied to the request body
  with \<open>safeParse\<close>: \<open>None\<close> when the body is refused. The text of zod's own message
  is not modelled; the handlers fall back to \<open>Invalid input\<close>.
\<close>

definition parseUpdateDocumentStatus :: "json \<Rightarrow> (DocumentVerificationStatus \<times> string option) option" where
  "parseUpdateDocumentStatus body =
     (case jsonField ''status'' body of
        Some (JStr s) \<Rightarrow>
          if s = ''APPROVED'' \<or> s = ''REJECTED'' then
            (case jsonField ''rejectionReason'' body of
               None \<Rightarrow> Some (if s = ''APPROVED'' then APPROVED else REJECTED, None)
             | Some (JStr r) \<Rightarrow> Some (if s = ''APPROVED'' then APPROVED else REJECTED, Some r)
             | Some _ \<Rightarrow> None)
          else None
      | _ \<Rightarrow> None)"

fun asStrings :: "json list \<Rightarrow> string list option" where
  "asStrings [] = Some []"
| "asStrings (JStr s # xs) = (case asStrings xs of None \<Rightarrow> None | Some ys \<Rightarrow> Some (s # ys))"
| "asStrings (x # xs) = None"

definition parseBulkApprove :: "json \<Rightarrow> string list option" where
  "parseBulkApprove body =
     (case jsonField ''documentIds'' body of
        Some (JArr xs) \<Rightarrow>
          (case asStrings xs of
             None \<Rightarrow> None
           | Some ids \<Rightarrow> if length ids < 1 then None else Some ids)
      | _ \<Rightarrow> None)"

text \<open>\<open>logAdminActivity\<close>: one row appended to the log. The details column holds
  \<open>JSON.stringify(details)\<close>; the model keeps the value that is rendered. The create is
  refused when the id is taken (P2002) or the admin is no client (P2003).\<close>

definition logAdminActivity ::
  "env \<Rightarrow> string \<Rightarrow> string \<Rightarrow> string \<Rightarrow> string \<Rightarrow> json \<Rightarrow> db \<Rightarrow> error + db" where
  "logAdminActivity env adminId action targetType targetId details db =
     (if \<exists>l \<in> set (adminActivityLogs db). l_id l = newId env 0
      then Inl (PrismaClientKnownRequestError ''P2002'')
      else if \<not> (\<exists>c \<in> set (clients db). c_id c = adminId)
      then Inl (PrismaClientKnownRequestError ''P2003'')
      else Inr (db\<lparr>adminActivityLogs := adminActivityLogs db @
                 [\<lparr>l_id = newId env 0, l_adminId = adminId, l_action = action,
                   l_targetType = targetType, l_targetId = targetId,
                   l_details = Some details, l_createdAt = clock env\<rparr>]\<rparr>))"

subsection \<open>PATCH /admin/documents/:id\<close>

record document_response =
  dr_data :: document
  dr_message :: string

definition updateDocumentStatus ::
  "env \<Rightarrow> string \<Rightarrow> string \<Rightarrow> json \<Rightarrow> db \<Rightarrow> (error + document_response) \<times> db" where
  "updateDocumentStatus env adminId docId body db =
     (case parseUpdateDocumentStatus body of
        None \<Rightarrow> (Inl (badRequest ''Invalid input''), db)
      | Some (status, rejectionReason) \<Rightarrow>
     (case find (\<lambda>d. d_id d = docId) (documents db) of
        None \<Rightarrow> (Inl (notFound ''Document''), db)
      | Some doc \<Rightarrow>
          let docClient = find (\<lambda>c. c_id c = d_clientId doc) (clients db);
              change = (\<lambda>d. d\<lparr>d_verificationStatus := status,
                              d_rejectionReason :=
                                (if status = REJECTED
                                 then (case rejectionReason of None \<Rightarrow> d_rejectionReason d
                                       | Some r \<Rightarrow> Some r)
                                 else None),
                              d_verifiedAt := Some (clock env)\<rparr>);
              db1 = db\<lparr>documents := updateMany (\<lambda>d. d_id d = docId) change (documents db)\<rparr>
          in
     (case docClient of
        None \<Rightarrow> (Inl TypeError, db1)
      | Some c \<Rightarrow>
     (case logAdminActivity env adminId
             (if status = APPROVED then ''APPROVE_DOCUMENT'' else ''REJECT_DOCUMENT'')
             ''DOCUMENT'' docId
             (JObj ([(''fileName'', JStr (d_fileName doc)), (''clientEmail'', JStr (c_email c))]
                    @ (case (if status = REJECTED then rejectionReason else None) of
                         None \<Rightarrow> [] | Some r \<Rightarrow> [(''rejectionReason'', JStr r)])))
             db1 of
        Inl e \<Rightarrow> (Inl e, db1)
      | Inr db2 \<Rightarrow>
          (Inr \<lparr>dr_data = change doc,
                dr_message = ''Document '' @ (if status = APPROVED then ''approved'' else ''rejected'')\<rparr>,
           db2)))))"

subsection \<open>POST /admin/documents/bulk-approve\<close>

record bulk_response =
  br_message :: string
  br_approvedCount :: nat

definition bulkApproveDocuments ::
  "env \<Rightarrow> string \<Rightarrow> json \<Rightarrow> db \<Rightarrow> (error + bulk_response) \<times> db" where
  "bulkApproveDocuments env adminId body db =
     (case parseBulkApprove body of
        None \<Rightarrow> (Inl (badRequest ''Invalid input''), db)
      | Some documentIds \<Rightarrow>
          let docs = filter (\<lambda>d. d_id d \<in> set documentIds \<and> d_verificationStatus d = PENDING)
                       (documents db)
          in
          if length docs = 0
          then (Inl (badRequest ''No pending documents found to approve''), db)
          else
            let db1 = db\<lparr>documents :=
                           updateMany (\<lambda>d. d_id d \<in> set (map d_id docs))
                             (\<lambda>d. d\<lparr>d_verificationStatus := APPROVED,
                                    d_verifiedAt := Some (clock env)\<rparr>)
                             (documents db)\<rparr>
            in
            (case logAdminActivity env adminId ''BULK_APPROVE'' ''DOCUMENT'' ''bulk''
                    (JObj [(''count'', JNum (int (length docs))),
                           (''documentIds'', JArr (map (\<lambda>d. JStr (d_id d)) docs))])
                    db1 of
               Inl e \<Rightarrow> (Inl e, db1)
             | Inr db2 \<Rightarrow>
                 (Inr \<lparr>br_message = showNat (length docs) @ '' document(s) approved'',
                       br_approvedCount = length docs\<rparr>,
                  db2)))"

subsection \<open>Bodies and effects of the admin requests, by name\<close>

text \<open>
  The body \<open>{status, rejectionReason?}\<close> and the body \<open>{documentIds}\<close>; the row that
  \<open>updateDocumentStatus\<close> writes over a document (\<open>review\<close>) and the one that
  \<open>bulkApproveDocuments\<close> writes (\<open>approve\<close>); the log rows of the two handlers; the
  pending documents among a list of ids; a sequence of \<open>updateDocumentStatus\<close> requests run
  one after the other; and the relation between a document before and after such requests
  that the status machine guarantees.
\<close>

fun statusName :: "DocumentVerificationStatus \<Rightarrow> string" where
  "statusName PENDING = ''PENDING''"
| "statusName APPROVED = ''APPROVED''"
| "statusName REJECTED = ''REJECTED''"

definition statusBody :: "DocumentVerificationStatus \<Rightarrow> string option \<Rightarrow> json" where
  "statusBody status rejectionReason =
     JObj ((''status'', JStr (statusName status)) #
           (case rejectionReason of None \<Rightarrow> [] | Some r \<Rightarrow> [(''rejectionReason'', JStr r)]))"

definition bulkBody :: "string list \<Rightarrow> json" where
  "bulkBody documentIds = JObj [(''documentIds'', JArr (map JStr documentIds))]"

definition review :: "env \<Rightarrow> DocumentVerificationStatus \<Rightarrow> string option \<Rightarrow> document \<Rightarrow> document" where
  "review env status rejectionReason d =
     d\<lparr>d_verificationStatus := status,
       d_rejectionReason :=
         (if status = REJECTED
          then (case rejectionReason of None \<Rightarrow> d_rejectionReason d | Some r \<Rightarrow> Some r)
          else None),
       d_verifiedAt := Some (clock env)\<rparr>"

definition reviewLog :: "env \<Rightarrow> string \<Rightarrow> string \<Rightarrow> DocumentVerificationStatus \<Rightarrow> string option \<Rightarrow> document \<Rightarrow> client \<Rightarrow> admin_activity_log" where
  "reviewLog env adminId docId status rejectionReason doc c =
     \<lparr>l_id = newId env 0, l_adminId = adminId,
      l_action = (if status = APPROVED then ''APPROVE_DOCUMENT'' else ''REJECT_DOCUMENT''),
      l_targetType = ''DOCUMENT'', l_targetId = docId,
      l_details = Some (JObj ([(''fileName'', JStr (d_fileName doc)), (''clientEmail'', JStr (c_email c))]
                    @ (case (if status = REJECTED then rejectionReason else None) of
                         None \<Rightarrow> [] | Some r \<Rightarrow> [(''rejectionReason'', JStr r)]))),
      l_createdAt = clock env\<rparr>"

definition approve :: "env \<Rightarrow> document \<Rightarrow> document" where
  "approve env d = d\<lparr>d_verificationStatus := APPROVED, d_verifiedAt := Some (clock env)\<rparr>"

definition pendingAmong :: "string list \<Rightarrow> db \<Rightarrow> document list" where
  "pendingAmong documentIds db =
     filter (\<lambda>d. d_id d \<in> set documentIds \<and> d_verificationStatus d = PENDING) (documents db)"

definition bulkLog :: "env \<Rightarrow> string \<Rightarrow> document list \<Rightarrow> admin_activity_log" where
  "bulkLog env adminId docs =
     \<lparr>l_id = newId env 0, l_adminId = adminId, l_action = ''BULK_APPROVE'',
      l_targetType = ''DOCUMENT'', l_targetId = ''bulk'',
      l_details = Some (JObj [(''count'', JNum (int (length docs))),
                              (''documentIds'', JArr (map (\<lambda>d. JStr (d_id d)) docs))]),
      l_createdAt = clock env\<rparr>"



section \<open>A reference environment\<close>

text \<open>
  To run the handlers on concrete requests the libraries need an instance. The signer
  below is, like jsonwebtoken with its default HS256, a function of the payload, the
  secret, the lifetime and the time of issue in whole seconds, and of nothing else: the
  token spells out secret, type, \<open>iat = floor(now / 1000)\<close>, \<open>exp\<close>, client id and email.
  \<open>plainVerify\<close> reads a token back and refuses it under another secret or once
  \<open>exp\<close> is reached. \<open>plainHash\<close> and \<open>plainCompare\<close> stand for bcryptjs. The
  configuration is the fallback of config/index.ts, so refresh tokens live seven days.
\<close>

fun splitOn :: "char \<Rightarrow> string \<Rightarrow> string list" where
  "splitOn d [] = [[]]"
| "splitOn d (c # cs) =
     (if c = d then [] # splitOn d cs
      else (case splitOn d cs of [] \<Rightarrow> [[c]] | w # ws \<Rightarrow> (c # w) # ws))"

definition lifetimeSeconds :: "string \<Rightarrow> nat" where
  "lifetimeSeconds expiresIn =
     (case matchExpiresIn expiresIn of
        None \<Rightarrow> 0
      | Some (v, unit) \<Rightarrow> v * multipliers unit div 1000)"

definition plainSign :: "nat \<Rightarrow> token_payload \<Rightarrow> string \<Rightarrow> string \<Rightarrow> string" where
  "plainSign now payload secret expiresIn =
     secret @ ''|'' @ tp_type payload @ ''|'' @ showNat (now div 1000) @ ''|''
       @ showNat (now div 1000 + lifetimeSeconds expiresIn) @ ''|''
       @ tp_clientId payload @ ''|'' @ tp_email payload"

definition plainVerify :: "nat \<Rightarrow> string \<Rightarrow> string \<Rightarrow> jwt_error + token_payload" where
  "plainVerify now token secret =
     (case splitOn CHR ''|'' token of
        [s, ty, iat, ex, cid, em] \<Rightarrow>
          if s \<noteq> secret \<or> \<not> list_all isDigit iat \<or> \<not> list_all isDigit ex
          then Inl JsonWebTokenError
          else if parseInt10 ex \<le> now div 1000 then Inl TokenExpiredError
          else Inr \<lparr>tp_clientId = cid, tp_email = em, tp_type = ty\<rparr>
      | _ \<Rightarrow> Inl JsonWebTokenError)"

definition plainHash :: "string \<Rightarrow> nat \<Rightarrow> string" where
  "plainHash password rounds = showNat rounds @ ''$'' @ password"

definition plainCompare :: "string \<Rightarrow> string \<Rightarrow> bool" where
  "plainCompare password hash = (dropWhile isDigit hash = ''$'' @ password)"

definition fallbackJwt :: jwt_config where
  "fallbackJwt =
     \<lparr>accessSecret = ''fallback-access-secret'', refreshSecret = ''fallback-refresh-secret'',
      accessExpiresIn = ''15m'', refreshExpiresIn = ''7d''\<rparr>"

definition plainEnv :: "nat \<Rightarrow> string \<Rightarrow> string \<Rightarrow> env" where
  "plainEnv now prefix hex =
     \<lparr>clock = now, newId = (\<lambda>k. prefix @ ''-'' @ showNat k), randomHex = hex,
      jwt_sign = plainSign, jwt_verify = plainVerify,
      bcrypt_hash = plainHash, bcrypt_compare = plainCompare, jwt = fallbackJwt\<rparr>"

text \<open>The step catalog of the seed script, and a database holding nothing else.\<close>

definition seedSteps :: "onboarding_step list" where
  "seedSteps =
     [\<lparr>s_id = ''s1'', s_stepNumber = 1, s_name = ''personal_info'',
       s_title = ''Personal Information'',
       s_description = ''Tell us about yourself and your company'', s_isRequired = True\<rparr>,
      \<lparr>s_id = ''s2'', s_stepNumber = 2, s_name = ''documents'',
       s_title = ''Document Upload'',
       s_description = ''Upload required verification documents'', s_isRequired = True\<rparr>,
      \<lparr>s_id = ''s3'', s_stepNumber = 3, s_name = ''verification'',
       s_title = ''Verification'',
       s_description = ''Wait for document verification'', s_isRequired = True\<rparr>,
      \<lparr>s_id = ''s4'', s_stepNumber = 4, s_name = ''setup'',
       s_title = ''Final Setup'',
       s_description = ''Configure your preferences and complete onboarding'',
       s_isRequired = True\<rparr>]"

definition seededDb :: db where
  "seededDb =
     \<lparr>clients = [], refreshTokens = [], passwordResetTokens = [], emailVerificationTokens = [],
      onboardingSteps = seedSteps, onboardingProgress = [], stepProgress = [], documents = [],
      adminActivityLogs = [], verificationMail = [], passwordResetMail = []\<rparr>"

text \<open>The database after \<open>signup("A@B.com", "Secure123", "A", "B")\<close> at second 5 on the
  seeded database (\<open>signup_on_seededDb\<close> below), and the refresh token that signup
  returned.\<close>

definition aliceToken :: string where
  "aliceToken = ''fallback-refresh-secret|refresh|5|604805|u-0|a@b.com''"

definition alice :: client where
  "alice =
     \<lparr>c_id = ''u-0'', c_email = ''a@b.com'', c_passwordHash = ''12$Secure123'',
      c_firstName = ''A'', c_lastName = ''B'', c_companyName = None, c_phone = None,
      c_avatarUrl = None, c_emailVerified = False, c_role = USER, c_createdAt = 5000\<rparr>"

definition aliceDb :: db where
  "aliceDb =
     \<lparr>clients = [alice],
      refreshTokens =
        [\<lparr>t_id = ''u-2'', t_token = aliceToken, t_clientId = ''u-0'',
          t_expiresAt = 604805000, t_createdAt = 5000\<rparr>],
      passwordResetTokens = [],
      emailVerificationTokens =
        [\<lparr>t_id = ''u-3'', t_token = ''ab12'', t_clientId = ''u-0'',
          t_expiresAt = 86405000, t_createdAt = 5000\<rparr>],
      onboardingSteps = seedSteps,
      onboardingProgress =
        [\<lparr>p_id = ''u-1'', p_clientId = ''u-0'', p_currentStep = 1, p_status = OS_PENDING,
          p_completedAt = None, p_createdAt = 5000\<rparr>],
      stepProgress = [], documents = [], adminActivityLogs = [],
      verificationMail = [(''a@b.com'', ''A'', ''ab12'')], passwordResetMail = []\<rparr>"

text \<open>The same database with the stored row of the token already past its expiry.\<close>

definition staleDb :: db where
  "staleDb = aliceDb\<lparr>refreshTokens :=
     [\<lparr>t_id = ''u-2'', t_token = aliceToken, t_clientId = ''u-0'',
       t_expiresAt = 6000, t_createdAt = 5000\<rparr>]\<rparr>"

text \<open>\<open>aliceDb\<close> after \<open>forgotPassword("A@B.com")\<close> at second 8.\<close>

definition aliceResetDb :: db where
  "aliceResetDb =
     aliceDb\<lparr>passwordResetTokens :=
               [\<lparr>t_id = ''f-0'', t_token = ''c0ffee'', t_clientId = ''u-0'',
                 t_expiresAt = 3608000, t_createdAt = 8000\<rparr>],
             passwordResetMail := [(''a@b.com'', ''A'', ''c0ffee'')]\<rparr>"

text \<open>The client of \<open>aliceDb\<close> with a given progress row and step rows; before the
  last step, and with the onboarding completed (\<open>onboarding_reaches_doneDb\<close> below).\<close>

definition aliceProgress :: "int \<Rightarrow> OnboardingStatus \<Rightarrow> nat option \<Rightarrow> onboarding_progress" where
  "aliceProgress currentStep status completedAt =
     \<lparr>p_id = ''u-1'', p_clientId = ''u-0'', p_currentStep = currentStep, p_status = status,
      p_completedAt = completedAt, p_createdAt = 5000\<rparr>"

definition doneRow :: "string \<Rightarrow> string \<Rightarrow> nat \<Rightarrow> step_progress" where
  "doneRow rowId stepId t =
     \<lparr>sp_id = rowId, sp_onboardingProgressId = ''u-1'', sp_onboardingStepId = stepId,
      sp_status = SS_COMPLETED, sp_data = None, sp_completedAt = Some t\<rparr>"

definition aliceAt :: "onboarding_progress \<Rightarrow> step_progress list \<Rightarrow> db" where
  "aliceAt progress rows = aliceDb\<lparr>onboardingProgress := [progress], stepProgress := rows\<rparr>"

definition lastStepDb :: db where
  "lastStepDb =
     aliceAt (aliceProgress 4 OS_IN_PROGRESS None)
       [doneRow ''c1-1'' ''s1'' 9100, doneRow ''c2-1'' ''s2'' 9200, doneRow ''c3-1'' ''s3'' 9300]"

definition doneDb :: db where
  "doneDb =
     aliceAt (aliceProgress 4 OS_COMPLETED (Some 9400))
       [doneRow ''c1-1'' ''s1'' 9100, doneRow ''c2-1'' ''s2'' 9200, doneRow ''c3-1'' ''s3'' 9300,
        doneRow ''c4-1'' ''s4'' 9400]"

text \<open>The same client, fresh from signup, on a catalog that has the first step only.\<close>

definition oneStepDb :: db where
  "oneStepDb = aliceDb\<lparr>onboardingSteps := take 1 seedSteps\<rparr>"

text \<open>An admin and three documents of the client of \<open>aliceDb\<close>: pending, approved, pending.\<close>

definition adminClient :: client where
  "adminClient =
     \<lparr>c_id = ''adm'', c_email = ''root@onboard.com'', c_passwordHash = ''12$Admin1234'',
      c_firstName = ''R'', c_lastName = ''T'', c_companyName = None, c_phone = None,
      c_avatarUrl = None, c_emailVerified = True, c_role = ADMIN, c_createdAt = 1000\<rparr>"

definition docA :: document where
  "docA =
     \<lparr>d_id = ''docA'', d_clientId = ''u-0'', d_fileName = ''passport.pdf'',
      d_fileUrl = ''https://utfs.io/f/a'', d_fileKey = ''a'', d_fileType = ''application/pdf'',
      d_fileSize = 1000, d_category = ID_DOCUMENT, d_uploadedAt = 6000,
      d_verificationStatus = PENDING, d_rejectionReason = None, d_verifiedAt = None\<rparr>"

definition docB :: document where
  "docB =
     \<lparr>d_id = ''docB'', d_clientId = ''u-0'', d_fileName = ''license.pdf'',
      d_fileUrl = ''https://utfs.io/f/b'', d_fileKey = ''b'', d_fileType = ''application/pdf'',
      d_fileSize = 2000, d_category = BUSINESS_LICENSE, d_uploadedAt = 6100,
      d_verificationStatus = APPROVED, d_rejectionReason = None, d_verifiedAt = Some 6500\<rparr>"

definition docC :: document where
  "docC =
     \<lparr>d_id = ''docC'', d_clientId = ''u-0'', d_fileName = ''tax.pdf'',
      d_fileUrl = ''https://utfs.io/f/c'', d_fileKey = ''c'', d_fileType = ''application/pdf'',
      d_fileSize = 3000, d_category = TAX_DOCUMENT, d_uploadedAt = 6200,
      d_verificationStatus = PENDING, d_rejectionReason = None, d_verifiedAt = None\<rparr>"

definition reviewDb :: db where
  "reviewDb = aliceDb\<lparr>clients := [alice, adminClient], documents := [docA, docB, docC]\<rparr>"

section \<open>Facts about tables\<close>

text \<open>The equations that evaluate the reference environment and the tables.\<close>

lemmas plain_defs = plainEnv_def plainSign_def plainVerify_def plainHash_def plainCompare_def
  fallbackJwt_def lifetimeSeconds_def matchExpiresIn_def isDigit_def parseInt10_def multipliers_def
  showNat.simps generateAccessToken_def generateRefreshToken_def verifyRefreshToken_def
  verifyAccessToken_def getRefreshTokenExpiry_def hashPassword_def comparePassword_def SALT_ROUNDS_def

lemmas run_defs = refresh_def createToken_def deleteMany_def updateMany_def Let_def
  aliceDb_def alice_def aliceToken_def


lemmas review_defs = reviewDb_def docA_def docB_def docC_def adminClient_def aliceDb_def alice_def
  statusBody_def bulkBody_def plainEnv_def showNat.simps

lemmas admin_defs = updateDocumentStatus_def bulkApproveDocuments_def logAdminActivity_def
  parseUpdateDocumentStatus_def parseBulkApprove_def updateMany_def Let_def

lemmas onboarding_defs = completeStep_def getOrCreateProgress_def upsertCompleted_def
  updateProfileFromStep_def textArg_def dataField_def orUndefined_def updateMany_def Let_def
  showInt_def showNat.simps

lemmas alice_defs = aliceAt_def aliceProgress_def doneRow_def lastStepDb_def doneDb_def
  oneStepDb_def  aliceDb_def alice_def seedSteps_def plainEnv_def

lemma find_SomeD: "find P xs = Some x \<Longrightarrow> P x \<and> x \<in> set xs"
  by (induction xs) (auto split: if_splits)

lemma find_unique_row:
  assumes "distinct (map f xs)" and "find (\<lambda>r. f r = k) xs = Some row"
    and "r \<in> set xs" and "f r = k"
  shows "r = row"
proof -
  from find_SomeD [OF assms(2)] have "row \<in> set xs" and "f row = k"
    by simp_all
  with assms(1,3,4) show ?thesis
    by (auto simp: distinct_map dest: inj_onD)
qed

lemma failsUnauthorized_unauthorized [simp]: "failsUnauthorized (Inl (unauthorized m))"
  by (simp add: failsUnauthorized_def failsWith_def unauthorized_def)

lemma failsUnauthorized_jwt [simp]: "failsUnauthorized (Inl (JwtError e))"
  by (cases e) (simp_all add: failsUnauthorized_def failsWith_def)

lemma failsBadRequest_badRequest [simp]: "failsBadRequest (Inl (badRequest m))"
  by (simp add: failsBadRequest_def failsWith_def badRequest_def)

section \<open>Refresh-token rotation\<close>

text \<open>Where \<open>aliceDb\<close> and \<open>aliceToken\<close> come from.\<close>

lemma signup_on_seededDb:
  "signup (plainEnv 5000 ''u'' ''ab12'') ''A@B.com'' ''Secure123'' ''A'' ''B'' seededDb =
     (Inr \<lparr>sr_client = \<lparr>sc_id = ''u-0'', sc_email = ''a@b.com'', sc_firstName = ''A'',
                          sc_lastName = ''B'', sc_createdAt = 5000\<rparr>,
           sr_tokens = \<lparr>accessToken = ''fallback-access-secret|access|5|905|u-0|a@b.com'',
                        refreshToken = aliceToken\<rparr>\<rparr>,
      aliceDb)"
  by (simp add: signup_def createClient_def createToken_def seededDb_def aliceDb_def alice_def
        aliceToken_def toLowerCase_def lowerChar_def Let_def plain_defs)

lemma refresh_absent:
  assumes "find (\<lambda>r. t_token r = T) (refreshTokens db) = None"
  shows "failsUnauthorized (fst (refresh env T db)) \<and> snd (refresh env T db) = db"
  using assms by (simp add: refresh_def verifyRefreshToken_def split: sum.splits)

lemma deleteMany_found_row:
  assumes "distinct (map t_token rows)" and "find (\<lambda>r. t_token r = T) rows = Some row"
  shows "\<forall>r \<in> set (deleteMany (\<lambda>r. t_id r = t_id row) rows). t_token r \<noteq> T"
  using find_unique_row [OF assms] by (auto simp: deleteMany_def)

lemma refresh_expired:
  assumes "verifyRefreshToken env T = Inr payload" and "tp_type payload = ''refresh''"
    and "find (\<lambda>r. t_token r = T) (refreshTokens db) = Some row"
    and "t_expiresAt row < clock env"
  shows "refresh env T db =
           (Inl (unauthorized ''Refresh token expired''),
            db\<lparr>refreshTokens := deleteMany (\<lambda>r. t_id r = t_id row) (refreshTokens db)\<rparr>)"
  using assms by (simp add: refresh_def Let_def)

lemma refresh_rotates:
  assumes "verifyRefreshToken env T = Inr payload" and "tp_type payload = ''refresh''"
    and "find (\<lambda>r. t_token r = T) (refreshTokens db) = Some row"
    and "find (\<lambda>c. c_id c = t_clientId row) (clients db) = Some c"
    and "\<not> t_expiresAt row < clock env"
    and "generateRefreshToken env (c_id c) (c_email c) \<notin> t_token ` set (refreshTokens db)"
    and "newId env 0 \<notin> t_id ` set (refreshTokens db)"
  shows "refresh env T db =
           (Inr \<lparr>accessToken = generateAccessToken env (c_id c) (c_email c),
                 refreshToken = generateRefreshToken env (c_id c) (c_email c)\<rparr>,
            db\<lparr>refreshTokens := deleteMany (\<lambda>r. t_id r = t_id row) (refreshTokens db) @
                 [\<lparr>t_id = newId env 0, t_token = generateRefreshToken env (c_id c) (c_email c),
                   t_clientId = c_id c, t_expiresAt = getRefreshTokenExpiry env,
                   t_createdAt = clock env\<rparr>]\<rparr>)"
proof -
  from find_SomeD [OF assms(4)] have cin: "\<exists>x \<in> set (clients db). c_id x = c_id c"
    by auto
  have fresh: "\<not> (\<exists>r \<in> set (deleteMany (\<lambda>r. t_id r = t_id row) (refreshTokens db)).
           t_id r = newId env 0 \<or> t_token r = generateRefreshToken env (c_id c) (c_email c))"
    using assms(6,7) by (auto simp: deleteMany_def intro: rev_image_eqI)
  show ?thesis
    using assms(1-5) cin fresh by (simp add: refresh_def Let_def createToken_def)
qed

text \<open>
  Rotation when the token signed is a new one. Let \<open>T\<close> be a token that \<open>verifyRefreshToken\<close> accepts
  with type \<open>refresh\<close>, stored (the token column is unique) with an existing client and not
  expired, and let the freshly signed refresh token \<open>T'\<close> be none of the stored tokens (so
  \<open>T' \<noteq> T\<close>) and the new row's id be unused. Then \<open>refresh(T)\<close> succeeds and returns
  \<open>T'\<close>, no row with token \<open>T\<close> is left, a row with \<open>T'\<close> for the same client is stored,
  and presenting \<open>T\<close> again fails Unauthorized (status 401) in every environment and
  changes nothing. A token with no stored row fails Unauthorized and changes nothing. A
  stored token that verifies but whose row is expired fails Unauthorized and its row is
  deleted.
\<close>

theorem refresh_rotation:
  "(verifyRefreshToken env T = Inr payload \<and> tp_type payload = ''refresh'' \<and>
    distinct (map t_token (refreshTokens db)) \<and>
    find (\<lambda>r. t_token r = T) (refreshTokens db) = Some row \<and>
    find (\<lambda>c. c_id c = t_clientId row) (clients db) = Some c \<and>
    \<not> t_expiresAt row < clock env \<and>
    generateRefreshToken env (c_id c) (c_email c) \<notin> t_token ` set (refreshTokens db) \<and>
    newId env 0 \<notin> t_id ` set (refreshTokens db)
    \<longrightarrow>
      fst (refresh env T db) =
        Inr \<lparr>accessToken = generateAccessToken env (c_id c) (c_email c),
             refreshToken = generateRefreshToken env (c_id c) (c_email c)\<rparr> \<and>
      generateRefreshToken env (c_id c) (c_email c) \<noteq> T \<and>
      (\<forall>r \<in> set (refreshTokens (snd (refresh env T db))). t_token r \<noteq> T) \<and>
      (\<exists>r \<in> set (refreshTokens (snd (refresh env T db))).
          t_token r = generateRefreshToken env (c_id c) (c_email c) \<and> t_clientId r = c_id c) \<and>
      (\<forall>env'. failsUnauthorized (fst (refresh env' T (snd (refresh env T db)))) \<and>
              snd (refresh env' T (snd (refresh env T db))) = snd (refresh env T db)))
   \<and>
   (find (\<lambda>r. t_token r = T) (refreshTokens db) = None
    \<longrightarrow> failsUnauthorized (fst (refresh env T db)) \<and> snd (refresh env T db) = db)
   \<and>
   (verifyRefreshToken env T = Inr payload \<and> tp_type payload = ''refresh'' \<and>
    distinct (map t_token (refreshTokens db)) \<and>
    find (\<lambda>r. t_token r = T) (refreshTokens db) = Some row \<and>
    t_expiresAt row < clock env
    \<longrightarrow>
      failsUnauthorized (fst (refresh env T db)) \<and>
      (\<forall>r \<in> set (refreshTokens (snd (refresh env T db))). t_token r \<noteq> T))"
proof (intro conjI impI)
  assume a: "verifyRefreshToken env T = Inr payload \<and> tp_type payload = ''refresh'' \<and>
    distinct (map t_token (refreshTokens db)) \<and>
    find (\<lambda>r. t_token r = T) (refreshTokens db) = Some row \<and>
    find (\<lambda>c. c_id c = t_clientId row) (clients db) = Some c \<and>
    \<not> t_expiresAt row < clock env \<and>
    generateRefreshToken env (c_id c) (c_email c) \<notin> t_token ` set (refreshTokens db) \<and>
    newId env 0 \<notin> t_id ` set (refreshTokens db)"
  let ?new = "generateRefreshToken env (c_id c) (c_email c)"
  let ?rest = "deleteMany (\<lambda>r. t_id r = t_id row) (refreshTokens db)"
  let ?row' = "\<lparr>t_id = newId env 0, t_token = ?new, t_clientId = c_id c,
                 t_expiresAt = getRefreshTokenExpiry env, t_createdAt = clock env\<rparr>"
  have run: "refresh env T db =
      (Inr \<lparr>accessToken = generateAccessToken env (c_id c) (c_email c), refreshToken = ?new\<rparr>,
       db\<lparr>refreshTokens := ?rest @ [?row']\<rparr>)"
    using a refresh_rotates [of env T payload db row c] by blast
  from a have stored: "row \<in> set (refreshTokens db)" and tok: "t_token row = T"
    using find_SomeD [of "\<lambda>r. t_token r = T" "refreshTokens db" row] by simp_all
  with a show differs: "?new \<noteq> T"
    by auto
  have gone: "\<forall>r \<in> set ?rest. t_token r \<noteq> T"
    using a deleteMany_found_row [of "refreshTokens db" T row] by blast
  show "fst (refresh env T db) =
      Inr \<lparr>accessToken = generateAccessToken env (c_id c) (c_email c), refreshToken = ?new\<rparr>"
    by (simp add: run)
  show after: "\<forall>r \<in> set (refreshTokens (snd (refresh env T db))). t_token r \<noteq> T"
    using gone differs by (simp add: run)
  show "\<exists>r \<in> set (refreshTokens (snd (refresh env T db))). t_token r = ?new \<and> t_clientId r = c_id c"
    by (simp add: run)
  have "find (\<lambda>r. t_token r = T) (refreshTokens (snd (refresh env T db))) = None"
    using after by (simp add: find_None_iff)
  then show "\<forall>env'. failsUnauthorized (fst (refresh env' T (snd (refresh env T db)))) \<and>
              snd (refresh env' T (snd (refresh env T db))) = snd (refresh env T db)"
    by (simp add: refresh_absent)
next
  assume "find (\<lambda>r. t_token r = T) (refreshTokens db) = None"
  then show "failsUnauthorized (fst (refresh env T db))" and "snd (refresh env T db) = db"
    by (simp_all add: refresh_absent)
next
  assume a: "verifyRefreshToken env T = Inr payload \<and> tp_type payload = ''refresh'' \<and>
    distinct (map t_token (refreshTokens db)) \<and>
    find (\<lambda>r. t_token r = T) (refreshTokens db) = Some row \<and>
    t_expiresAt row < clock env"
  then have run: "refresh env T db =
           (Inl (unauthorized ''Refresh token expired''),
            db\<lparr>refreshTokens := deleteMany (\<lambda>r. t_id r = t_id row) (refreshTokens db)\<rparr>)"
    using refresh_expired [of env T payload db row] by blast
  show "failsUnauthorized (fst (refresh env T db))"
    by (simp add: run)
  have "\<forall>r \<in> set (deleteMany (\<lambda>r. t_id r = t_id row) (refreshTokens db)). t_token r \<noteq> T"
    using a deleteMany_found_row [of "refreshTokens db" T row] by blast
  then show "\<forall>r \<in> set (refreshTokens (snd (refresh env T db))). t_token r \<noteq> T"
    by (simp add: run)
qed


text \<open>The three cases at work: the token of \<open>aliceDb\<close> presented two seconds after its
  issue, a token that is not stored, and the token with its row expired.\<close>

theorem refresh_rotation_witness:
  "verifyRefreshToken (plainEnv 7000 ''r'' []) aliceToken =
     Inr \<lparr>tp_clientId = ''u-0'', tp_email = ''a@b.com'', tp_type = ''refresh''\<rparr> \<and>
   find (\<lambda>r. t_token r = aliceToken) (refreshTokens aliceDb) =
     Some \<lparr>t_id = ''u-2'', t_token = aliceToken, t_clientId = ''u-0'',
           t_expiresAt = 604805000, t_createdAt = 5000\<rparr> \<and>
   fst (refresh (plainEnv 7000 ''r'' []) aliceToken aliceDb) =
     Inr \<lparr>accessToken = ''fallback-access-secret|access|7|907|u-0|a@b.com'',
          refreshToken = ''fallback-refresh-secret|refresh|7|604807|u-0|a@b.com''\<rparr> \<and>
   map t_token (refreshTokens (snd (refresh (plainEnv 7000 ''r'' []) aliceToken aliceDb))) =
     [''fallback-refresh-secret|refresh|7|604807|u-0|a@b.com''] \<and>
   failsUnauthorized (fst (refresh (plainEnv 9000 ''q'' []) aliceToken
      (snd (refresh (plainEnv 7000 ''r'' []) aliceToken aliceDb)))) \<and>
   find (\<lambda>r. t_token r = ''gone'') (refreshTokens aliceDb) = None \<and>
   failsUnauthorized (fst (refresh (plainEnv 7000 ''r'' []) ''gone'' aliceDb)) \<and>
   failsUnauthorized (fst (refresh (plainEnv 7000 ''r'' []) aliceToken staleDb)) \<and>
   refreshTokens (snd (refresh (plainEnv 7000 ''r'' []) aliceToken staleDb)) = []"
proof -
  let ?env = "plainEnv 7000 ''r'' []"
  let ?payload = "\<lparr>tp_clientId = ''u-0'', tp_email = ''a@b.com'', tp_type = ''refresh''\<rparr>"
  let ?row = "\<lparr>t_id = ''u-2'', t_token = aliceToken, t_clientId = ''u-0'',
           t_expiresAt = 604805000, t_createdAt = 5000\<rparr>"
  let ?stale = "\<lparr>t_id = ''u-2'', t_token = aliceToken, t_clientId = ''u-0'',
           t_expiresAt = 6000, t_createdAt = 5000\<rparr>"
  have v: "verifyRefreshToken ?env aliceToken = Inr ?payload"
    by (simp add: aliceToken_def plain_defs)
  have f: "find (\<lambda>r. t_token r = aliceToken) (refreshTokens aliceDb) = Some ?row"
    by (simp add: aliceDb_def)
  have g: "find (\<lambda>r. t_token r = ''gone'') (refreshTokens aliceDb) = None"
    by (simp add: aliceDb_def aliceToken_def)
  have fs: "find (\<lambda>r. t_token r = aliceToken) (refreshTokens staleDb) = Some ?stale"
    by (simp add: staleDb_def)
  have h1: "verifyRefreshToken ?env aliceToken = Inr ?payload \<and> tp_type ?payload = ''refresh'' \<and>
    distinct (map t_token (refreshTokens aliceDb)) \<and>
    find (\<lambda>r. t_token r = aliceToken) (refreshTokens aliceDb) = Some ?row \<and>
    find (\<lambda>c. c_id c = t_clientId ?row) (clients aliceDb) = Some alice \<and>
    \<not> t_expiresAt ?row < clock ?env \<and>
    generateRefreshToken ?env (c_id alice) (c_email alice) \<notin> t_token ` set (refreshTokens aliceDb) \<and>
    newId ?env 0 \<notin> t_id ` set (refreshTokens aliceDb)"
    using v f by (simp add: aliceDb_def alice_def aliceToken_def plain_defs)
  have h3: "verifyRefreshToken ?env aliceToken = Inr ?payload \<and> tp_type ?payload = ''refresh'' \<and>
    distinct (map t_token (refreshTokens staleDb)) \<and>
    find (\<lambda>r. t_token r = aliceToken) (refreshTokens staleDb) = Some ?stale \<and>
    t_expiresAt ?stale < clock ?env"
    using v fs by (simp add: staleDb_def plainEnv_def)
  from refresh_rotation [of ?env aliceToken ?payload aliceDb ?row alice] h1
  have c1: "failsUnauthorized (fst (refresh (plainEnv 9000 ''q'' []) aliceToken (snd (refresh ?env aliceToken aliceDb))))"
    by blast
  from refresh_rotation [of ?env "''gone''" ?payload aliceDb ?row alice] g
  have c2: "failsUnauthorized (fst (refresh ?env ''gone'' aliceDb))"
    by blast
  from refresh_rotation [of ?env aliceToken ?payload staleDb ?stale alice] h3
  have c3: "failsUnauthorized (fst (refresh ?env aliceToken staleDb))"
    by blast
  have r1: "fst (refresh ?env aliceToken aliceDb) =
     Inr \<lparr>accessToken = ''fallback-access-secret|access|7|907|u-0|a@b.com'',
          refreshToken = ''fallback-refresh-secret|refresh|7|604807|u-0|a@b.com''\<rparr>"
    by (simp add: run_defs plain_defs)
  have r2: "map t_token (refreshTokens (snd (refresh ?env aliceToken aliceDb))) =
     [''fallback-refresh-secret|refresh|7|604807|u-0|a@b.com'']"
    by (simp add: run_defs plain_defs)
  have r3: "refreshTokens (snd (refresh ?env aliceToken staleDb)) = []"
    by (simp add: staleDb_def run_defs plain_defs)
  from v f g c1 c2 c3 r1 r2 r3 show ?thesis
    by blast
qed

text \<open>
  Claim C1: a refresh returns a refresh token other than the one presented, and presenting
  the consumed token again fails Unauthorized. The code signs the new token from the
  client's id and email, the secret, the lifetime and the second of the request, and
  nothing else. Here \<open>T\<close> was issued by signup at 5000 ms (\<open>signup_on_seededDb\<close>), is
  stored and expires in seven days, and is presented at 5400 ms, in the second in which
  it was signed: the token returned is \<open>T\<close> itself, the row deleted is stored again under
  \<open>T\<close>, and presenting \<open>T\<close> once more at 9000 ms succeeds.
\<close>

theorem refresh_same_second_counterexample:
  "map t_token (refreshTokens aliceDb) = [aliceToken] \<and>
   map t_expiresAt (refreshTokens aliceDb) = [604805000] \<and>
   fst (refresh (plainEnv 5400 ''r'' []) aliceToken aliceDb) =
     Inr \<lparr>accessToken = ''fallback-access-secret|access|5|905|u-0|a@b.com'',
          refreshToken = aliceToken\<rparr> \<and>
   map t_token (refreshTokens (snd (refresh (plainEnv 5400 ''r'' []) aliceToken aliceDb))) =
     [aliceToken] \<and>
   fst (refresh (plainEnv 9000 ''q'' []) aliceToken
          (snd (refresh (plainEnv 5400 ''r'' []) aliceToken aliceDb))) =
     Inr \<lparr>accessToken = ''fallback-access-secret|access|9|909|u-0|a@b.com'',
          refreshToken = ''fallback-refresh-secret|refresh|9|604809|u-0|a@b.com''\<rparr>"
proof -
  have first: "refresh (plainEnv 5400 ''r'' []) aliceToken aliceDb =
     (Inr \<lparr>accessToken = ''fallback-access-secret|access|5|905|u-0|a@b.com'',
           refreshToken = aliceToken\<rparr>,
      aliceDb\<lparr>refreshTokens :=
        [\<lparr>t_id = ''r-0'', t_token = aliceToken, t_clientId = ''u-0'',
          t_expiresAt = 604805400, t_createdAt = 5400\<rparr>]\<rparr>)"
    by (simp add: run_defs plain_defs)
  show ?thesis
    unfolding first by (simp add: run_defs plain_defs)
qed

text \<open>The branch of \<open>refresh\<close> that deletes an expired row is not reached by a token the
  code issued with the lifetime of the row: once the row is past its expiry so is the
  token, verification fails first, and the row stays.\<close>

lemma refresh_after_expiry:
  "map t_expiresAt (refreshTokens aliceDb) = [604805000] \<and>
   refresh (plainEnv 604806000 ''r'' []) aliceToken aliceDb =
     (Inl (JwtError TokenExpiredError), aliceDb)"
  by (simp add: run_defs plain_defs)


section \<open>Password reset\<close>

lemma forgotPassword_success_response:
  assumes "fst (forgotPassword env email db) = Inr r"
  shows "r = forgotPasswordResponse"
  using assms
  by (auto simp: forgotPassword_def forgotPasswordResponse_def Let_def
           split: option.splits sum.splits)

lemma forgotPassword_unknown:
  assumes "find (\<lambda>c. c_email c = toLowerCase email) (clients db) = None"
  shows "forgotPassword env email db = (Inr forgotPasswordResponse, db)"
  using assms by (simp add: forgotPassword_def forgotPasswordResponse_def)

lemma forgotPassword_known:
  assumes "find (\<lambda>c. c_email c = toLowerCase email) (clients db) = Some c"
    and "randomHex env \<notin> t_token ` set (passwordResetTokens db)"
    and "newId env 0 \<notin> t_id ` set (passwordResetTokens db)"
  shows "fst (forgotPassword env email db) = Inr forgotPasswordResponse"
proof -
  from find_SomeD [OF assms(1)] have cin: "\<exists>x \<in> set (clients db). c_id x = c_id c"
    by auto
  have fresh: "\<not> (\<exists>r \<in> set (deleteMany (\<lambda>r. t_clientId r = c_id c) (passwordResetTokens db)).
           t_id r = newId env 0 \<or> t_token r = randomHex env)"
    using assms(2,3) by (auto simp: deleteMany_def intro: rev_image_eqI)
  show ?thesis
    using assms(1) cin fresh
    by (simp add: forgotPassword_def forgotPasswordResponse_def Let_def createToken_def)
qed

text \<open>
  Claim C8. When \<open>forgotPassword\<close> is called with the email of an existing client (the
  reset token drawn and the new row's id being unused) and with an email of no client,
  both calls succeed with the same response, \<open>forgotPasswordResponse\<close>; and whatever the
  environments and databases, two success responses of two calls are equal.
\<close>

theorem forgotPassword_same_response:
  "(find (\<lambda>c. c_email c = toLowerCase known) (clients db1) = Some c \<and>
    randomHex env1 \<notin> t_token ` set (passwordResetTokens db1) \<and>
    newId env1 0 \<notin> t_id ` set (passwordResetTokens db1) \<and>
    find (\<lambda>c. c_email c = toLowerCase unknown) (clients db2) = None
    \<longrightarrow> fst (forgotPassword env1 known db1) = Inr forgotPasswordResponse \<and>
        fst (forgotPassword env2 unknown db2) = Inr forgotPasswordResponse)
   \<and>
   (fst (forgotPassword env1 known db1) = Inr r1 \<and> fst (forgotPassword env2 unknown db2) = Inr r2
    \<longrightarrow> r1 = r2)"
  using forgotPassword_known [of known db1 c env1] forgotPassword_unknown [of unknown db2 env2]
    forgotPassword_success_response [of env1 known db1 r1]
    forgotPassword_success_response [of env2 unknown db2 r2]
  by auto

text \<open>On \<open>aliceDb\<close>: the known address, in capitals, and an unknown one.\<close>

theorem forgotPassword_same_response_witness:
  "find (\<lambda>c. c_email c = toLowerCase ''A@B.com'') (clients aliceDb) = Some alice \<and>
   find (\<lambda>c. c_email c = toLowerCase ''nobody@x.org'') (clients aliceDb) = None \<and>
   forgotPassword (plainEnv 8000 ''f'' ''c0ffee'') ''A@B.com'' aliceDb =
     (Inr forgotPasswordResponse, aliceResetDb) \<and>
   forgotPassword (plainEnv 8000 ''g'' ''decade'') ''nobody@x.org'' aliceDb =
     (Inr forgotPasswordResponse, aliceDb)"
proof -
  have k: "find (\<lambda>c. c_email c = toLowerCase ''A@B.com'') (clients aliceDb) = Some alice"
    by (simp add: aliceDb_def alice_def toLowerCase_def lowerChar_def)
  have u: "find (\<lambda>c. c_email c = toLowerCase ''nobody@x.org'') (clients aliceDb) = None"
    by (simp add: aliceDb_def alice_def toLowerCase_def lowerChar_def)
  have fresh: "randomHex (plainEnv 8000 ''f'' ''c0ffee'') \<notin> t_token ` set (passwordResetTokens aliceDb) \<and>
    newId (plainEnv 8000 ''f'' ''c0ffee'') 0 \<notin> t_id ` set (passwordResetTokens aliceDb)"
    by (simp add: aliceDb_def)
  from forgotPassword_same_response [of "''A@B.com''" aliceDb alice "plainEnv 8000 ''f'' ''c0ffee''"
      "''nobody@x.org''" aliceDb "plainEnv 8000 ''g'' ''decade''"] k u fresh
  have both: "fst (forgotPassword (plainEnv 8000 ''f'' ''c0ffee'') ''A@B.com'' aliceDb) =
        Inr forgotPasswordResponse \<and>
      fst (forgotPassword (plainEnv 8000 ''g'' ''decade'') ''nobody@x.org'' aliceDb) =
        Inr forgotPasswordResponse"
    by blast
  have s1: "snd (forgotPassword (plainEnv 8000 ''f'' ''c0ffee'') ''A@B.com'' aliceDb) = aliceResetDb"
    by (simp add: forgotPassword_def aliceResetDb_def toLowerCase_def lowerChar_def
        run_defs plain_defs)
  have s2: "snd (forgotPassword (plainEnv 8000 ''g'' ''decade'') ''nobody@x.org'' aliceDb) = aliceDb"
    using u by (simp add: forgotPassword_def)
  from k u both s1 s2 show ?thesis
    by (simp add: prod_eq_iff)
qed

lemma resetPassword_success:
  assumes "fst (resetPassword env token password db) = Inr resp"
  shows "\<exists>rt. find (\<lambda>r. t_token r = token) (passwordResetTokens db) = Some rt \<and>
           \<not> t_expiresAt rt < clock env \<and>
           refreshTokens (snd (resetPassword env token password db)) =
             deleteMany (\<lambda>r. t_clientId r = t_clientId rt) (refreshTokens db) \<and>
           passwordResetTokens (snd (resetPassword env token password db)) =
             deleteMany (\<lambda>r. t_clientId r = t_clientId rt) (passwordResetTokens db) \<and>
           clients (snd (resetPassword env token password db)) =
             updateMany (\<lambda>c. c_id c = t_clientId rt)
               (\<lambda>c. c\<lparr>c_passwordHash := hashPassword env password\<rparr>) (clients db)"
  using assms
  by (auto simp: resetPassword_def Let_def split: option.splits if_splits)

lemma resetPassword_runs:
  assumes "find (\<lambda>r. t_token r = token) (passwordResetTokens db) = Some rt"
    and "\<not> t_expiresAt rt < clock env"
    and "\<exists>c \<in> set (clients db). c_id c = t_clientId rt"
  shows "fst (resetPassword env token password db) = Inr resetPasswordResponse"
  using assms by (simp add: resetPassword_def resetPasswordResponse_def Let_def)

lemma refresh_of_deleted:
  assumes "distinct (map t_token rows)" and "r \<in> set rows" and "t_token r = T" and "P r"
  shows "find (\<lambda>r. t_token r = T) (deleteMany P rows) = None"
proof -
  have "\<forall>x \<in> set (deleteMany P rows). t_token x \<noteq> T"
  proof
    fix x assume x: "x \<in> set (deleteMany P rows)"
    show "t_token x \<noteq> T"
    proof
      assume "t_token x = T"
      with assms(1-3) x have "x = r"
        by (auto simp: deleteMany_def distinct_map dest: inj_onD)
      with x assms(4) show False
        by (simp add: deleteMany_def)
    qed
  qed
  then show ?thesis
    by (simp add: find_None_iff)
qed

text \<open>
  Claim C9. \<open>resetPassword\<close> succeeds when the token is stored, not expired, and its client
  exists. After a successful call no refresh token and no reset token of that client is
  left, and every refresh token that was stored for the client before the call (the token
  column being unique) fails Unauthorized when presented to \<open>refresh\<close>, in every
  environment.
\<close>

theorem resetPassword_revokes_refresh_tokens:
  "(find (\<lambda>r. t_token r = token) (passwordResetTokens db) = Some rt \<and>
    \<not> t_expiresAt rt < clock env \<and>
    (\<exists>c \<in> set (clients db). c_id c = t_clientId rt)
    \<longrightarrow> fst (resetPassword env token password db) = Inr resetPasswordResponse)
   \<and>
   (fst (resetPassword env token password db) = Inr resp \<longrightarrow>
     (\<exists>rt. find (\<lambda>r. t_token r = token) (passwordResetTokens db) = Some rt \<and>
        (\<forall>r \<in> set (refreshTokens (snd (resetPassword env token password db))).
            t_clientId r \<noteq> t_clientId rt) \<and>
        (\<forall>r \<in> set (passwordResetTokens (snd (resetPassword env token password db))).
            t_clientId r \<noteq> t_clientId rt) \<and>
        (\<forall>r \<in> set (refreshTokens db). \<forall>env'.
            distinct (map t_token (refreshTokens db)) \<and> t_clientId r = t_clientId rt \<longrightarrow>
            failsUnauthorized
              (fst (refresh env' (t_token r) (snd (resetPassword env token password db)))))))"
proof (intro conjI impI)
  assume "find (\<lambda>r. t_token r = token) (passwordResetTokens db) = Some rt \<and>
    \<not> t_expiresAt rt < clock env \<and> (\<exists>c \<in> set (clients db). c_id c = t_clientId rt)"
  then show "fst (resetPassword env token password db) = Inr resetPasswordResponse"
    using resetPassword_runs [of token db rt env password] by blast
next
  let ?db' = "snd (resetPassword env token password db)"
  assume "fst (resetPassword env token password db) = Inr resp"
  from resetPassword_success [OF this] obtain rt where
    rt: "find (\<lambda>r. t_token r = token) (passwordResetTokens db) = Some rt"
    and rs: "refreshTokens ?db' = deleteMany (\<lambda>r. t_clientId r = t_clientId rt) (refreshTokens db)"
    and ps: "passwordResetTokens ?db' =
               deleteMany (\<lambda>r. t_clientId r = t_clientId rt) (passwordResetTokens db)"
    by blast
  have replay: "\<forall>r \<in> set (refreshTokens db). \<forall>env'.
      distinct (map t_token (refreshTokens db)) \<and> t_clientId r = t_clientId rt \<longrightarrow>
      failsUnauthorized (fst (refresh env' (t_token r) ?db'))"
  proof (intro ballI allI impI)
    fix r env'
    assume r: "r \<in> set (refreshTokens db)"
      and d: "distinct (map t_token (refreshTokens db)) \<and> t_clientId r = t_clientId rt"
    have "find (\<lambda>x. t_token x = t_token r) (refreshTokens ?db') = None"
      unfolding rs using d r by (intro refresh_of_deleted [where r = r]) simp_all
    then show "failsUnauthorized (fst (refresh env' (t_token r) ?db'))"
      by (simp add: refresh_absent)
  qed
  show "\<exists>rt. find (\<lambda>r. t_token r = token) (passwordResetTokens db) = Some rt \<and>
        (\<forall>r \<in> set (refreshTokens ?db'). t_clientId r \<noteq> t_clientId rt) \<and>
        (\<forall>r \<in> set (passwordResetTokens ?db'). t_clientId r \<noteq> t_clientId rt) \<and>
        (\<forall>r \<in> set (refreshTokens db). \<forall>env'.
            distinct (map t_token (refreshTokens db)) \<and> t_clientId r = t_clientId rt \<longrightarrow>
            failsUnauthorized (fst (refresh env' (t_token r) ?db')))"
    using rt replay by (intro exI [of _ rt]) (simp add: rs ps deleteMany_def)
qed


text \<open>On \<open>aliceResetDb\<close>: the reset with the token mailed, then the refresh token that
  signup had issued.\<close>

theorem resetPassword_revokes_refresh_tokens_witness:
  "find (\<lambda>r. t_token r = ''c0ffee'') (passwordResetTokens aliceResetDb) =
     Some \<lparr>t_id = ''f-0'', t_token = ''c0ffee'', t_clientId = ''u-0'',
           t_expiresAt = 3608000, t_createdAt = 8000\<rparr> \<and>
   map t_token (refreshTokens aliceResetDb) = [aliceToken] \<and>
   fst (resetPassword (plainEnv 9000 ''p'' []) ''c0ffee'' ''NewPass123'' aliceResetDb) =
     Inr resetPasswordResponse \<and>
   refreshTokens (snd (resetPassword (plainEnv 9000 ''p'' []) ''c0ffee'' ''NewPass123'' aliceResetDb)) = [] \<and>
   passwordResetTokens (snd (resetPassword (plainEnv 9000 ''p'' []) ''c0ffee'' ''NewPass123'' aliceResetDb)) = [] \<and>
   failsUnauthorized (fst (refresh (plainEnv 9500 ''q'' []) aliceToken
     (snd (resetPassword (plainEnv 9000 ''p'' []) ''c0ffee'' ''NewPass123'' aliceResetDb))))"
proof -
  let ?env = "plainEnv 9000 ''p'' []"
  let ?rt = "\<lparr>t_id = ''f-0'', t_token = ''c0ffee'', t_clientId = ''u-0'',
           t_expiresAt = 3608000, t_createdAt = 8000\<rparr>"
  let ?row = "\<lparr>t_id = ''u-2'', t_token = aliceToken, t_clientId = ''u-0'',
          t_expiresAt = 604805000, t_createdAt = 5000\<rparr>"
  let ?db' = "snd (resetPassword ?env ''c0ffee'' ''NewPass123'' aliceResetDb)"
  have f: "find (\<lambda>r. t_token r = ''c0ffee'') (passwordResetTokens aliceResetDb) = Some ?rt"
    by (simp add: aliceResetDb_def)
  have m: "map t_token (refreshTokens aliceResetDb) = [aliceToken]"
    by (simp add: aliceResetDb_def aliceDb_def)
  have h: "find (\<lambda>r. t_token r = ''c0ffee'') (passwordResetTokens aliceResetDb) = Some ?rt \<and>
    \<not> t_expiresAt ?rt < clock ?env \<and>
    (\<exists>c \<in> set (clients aliceResetDb). c_id c = t_clientId ?rt)"
    using f by (simp add: aliceResetDb_def aliceDb_def alice_def plainEnv_def)
  note t = resetPassword_revokes_refresh_tokens
    [of "''c0ffee''" aliceResetDb ?rt ?env "''NewPass123''" resetPasswordResponse]
  from t h have ok: "fst (resetPassword ?env ''c0ffee'' ''NewPass123'' aliceResetDb) =
      Inr resetPasswordResponse"
    by blast
  have rows: "refreshTokens aliceResetDb = [?row]"
    by (simp add: aliceResetDb_def aliceDb_def)
  from t ok f have "\<forall>r \<in> set (refreshTokens aliceResetDb). \<forall>env'.
      distinct (map t_token (refreshTokens aliceResetDb)) \<and> t_clientId r = t_clientId ?rt \<longrightarrow>
      failsUnauthorized (fst (refresh env' (t_token r) ?db'))"
    by auto
  then have replay: "failsUnauthorized (fst (refresh (plainEnv 9500 ''q'' []) aliceToken ?db'))"
    unfolding rows by simp
  have r1: "refreshTokens ?db' = []"
    by (simp add: resetPassword_def aliceResetDb_def run_defs plainEnv_def)
  have r2: "passwordResetTokens ?db' = []"
    by (simp add: resetPassword_def aliceResetDb_def run_defs plainEnv_def)
  from f m ok replay r1 r2 show ?thesis
    by blast
qed

section \<open>Letter case of the email\<close>

lemma lowerChar_idem: "lowerChar (lowerChar c) = lowerChar c"
  by (simp add: lowerChar_def)

lemma toLowerCase_idem: "toLowerCase (toLowerCase s) = toLowerCase s"
  by (simp add: toLowerCase_def lowerChar_idem)

lemma signup_clients:
  assumes "signup env email password firstName lastName db = (Inr resp, db')"
  shows "\<exists>c. clients db' = clients db @ [c] \<and> c_email c = toLowerCase email \<and>
             sc_email (sr_client resp) = toLowerCase email"
  using assms
  by (auto simp: signup_def createClient_def createToken_def Let_def
           split: option.splits sum.splits if_splits)

text \<open>
  Claim C10. \<open>login\<close> with an email and with its lowercase form are the same computation:
  same result, same database. A successful \<open>signup\<close> stores and returns the lowercase form
  of the email, and if every stored email was in lowercase before, every stored email is
  afterwards.
\<close>

theorem email_case_insensitive:
  "login env email password db = login env (toLowerCase email) password db \<and>
   (signup env email password firstName lastName db = (Inr resp, db') \<longrightarrow>
      sc_email (sr_client resp) = toLowerCase email \<and>
      (\<exists>c \<in> set (clients db'). c_email c = toLowerCase email) \<and>
      ((\<forall>c \<in> set (clients db). toLowerCase (c_email c) = c_email c) \<longrightarrow>
       (\<forall>c \<in> set (clients db'). toLowerCase (c_email c) = c_email c)))"
proof (intro conjI impI)
  show "login env email password db = login env (toLowerCase email) password db"
    by (simp add: login_def toLowerCase_idem)
next
  assume s: "signup env email password firstName lastName db = (Inr resp, db')"
  from signup_clients [OF s] obtain c where
    c: "clients db' = clients db @ [c]" "c_email c = toLowerCase email"
       "sc_email (sr_client resp) = toLowerCase email"
    by blast
  show "sc_email (sr_client resp) = toLowerCase email"
    by (rule c(3))
  show "\<exists>c \<in> set (clients db'). c_email c = toLowerCase email"
    using c by auto
  assume "\<forall>c \<in> set (clients db). toLowerCase (c_email c) = c_email c"
  then show "\<forall>c \<in> set (clients db'). toLowerCase (c_email c) = c_email c"
    using c by (auto simp: toLowerCase_idem)
qed



text \<open>Signup with capitals on the seeded database, then login with capitals and without.\<close>

theorem email_case_insensitive_witness:
  "signup (plainEnv 5000 ''u'' ''ab12'') ''A@B.com'' ''Secure123'' ''A'' ''B'' seededDb =
     (Inr \<lparr>sr_client = \<lparr>sc_id = ''u-0'', sc_email = ''a@b.com'', sc_firstName = ''A'',
                         sc_lastName = ''B'', sc_createdAt = 5000\<rparr>,
           sr_tokens = \<lparr>accessToken = ''fallback-access-secret|access|5|905|u-0|a@b.com'',
                         refreshToken = aliceToken\<rparr>\<rparr>,
      aliceDb) \<and>
   map c_email (clients aliceDb) = [''a@b.com''] \<and>
   fst (login (plainEnv 7000 ''r'' []) ''A@B.com'' ''Secure123'' aliceDb) =
     Inr \<lparr>lr_client = \<lparr>lc_id = ''u-0'', lc_email = ''a@b.com'', lc_firstName = ''A'',
                         lc_lastName = ''B'', lc_companyName = None, lc_avatarUrl = None\<rparr>,
          lr_tokens = \<lparr>accessToken = ''fallback-access-secret|access|7|907|u-0|a@b.com'',
                        refreshToken = ''fallback-refresh-secret|refresh|7|604807|u-0|a@b.com''\<rparr>\<rparr> \<and>
   login (plainEnv 7000 ''r'' []) ''A@B.com'' ''Secure123'' aliceDb =
     login (plainEnv 7000 ''r'' []) ''a@b.com'' ''Secure123'' aliceDb"
proof -
  let ?resp = "\<lparr>sr_client = \<lparr>sc_id = ''u-0'', sc_email = ''a@b.com'', sc_firstName = ''A'',
                         sc_lastName = ''B'', sc_createdAt = 5000\<rparr>,
           sr_tokens = \<lparr>accessToken = ''fallback-access-secret|access|5|905|u-0|a@b.com'',
                         refreshToken = aliceToken\<rparr>\<rparr>"
  have s: "signup (plainEnv 5000 ''u'' ''ab12'') ''A@B.com'' ''Secure123'' ''A'' ''B'' seededDb =
     (Inr ?resp, aliceDb)"
    by (simp add: signup_def seededDb_def createClient_def toLowerCase_def lowerChar_def
        run_defs plain_defs)
  have l: "fst (login (plainEnv 7000 ''r'' []) ''A@B.com'' ''Secure123'' aliceDb) =
     Inr \<lparr>lr_client = \<lparr>lc_id = ''u-0'', lc_email = ''a@b.com'', lc_firstName = ''A'',
                         lc_lastName = ''B'', lc_companyName = None, lc_avatarUrl = None\<rparr>,
          lr_tokens = \<lparr>accessToken = ''fallback-access-secret|access|7|907|u-0|a@b.com'',
                        refreshToken = ''fallback-refresh-secret|refresh|7|604807|u-0|a@b.com''\<rparr>\<rparr>"
    by (simp add: login_def toLowerCase_def lowerChar_def run_defs plain_defs)
  have lower: "toLowerCase ''A@B.com'' = ''a@b.com''"
    by (simp add: toLowerCase_def lowerChar_def)
  have m: "map c_email (clients aliceDb) = [''a@b.com'']"
    by (simp add: aliceDb_def alice_def)
  from email_case_insensitive [of "plainEnv 7000 ''r'' []" "''A@B.com''" "''Secure123''" aliceDb]
  have e: "login (plainEnv 7000 ''r'' []) ''A@B.com'' ''Secure123'' aliceDb =
     login (plainEnv 7000 ''r'' []) ''a@b.com'' ''Secure123'' aliceDb"
    by (simp add: lower)
  from email_case_insensitive [of "plainEnv 5000 ''u'' ''ab12''" "''A@B.com''" "''Secure123''"
      seededDb "''A''" "''B''" ?resp aliceDb] s
  have "\<forall>c \<in> set (clients aliceDb). toLowerCase (c_email c) = c_email c"
    by (simp add: seededDb_def)
  with s l m e show ?thesis
    by blast
qed


section \<open>Document review\<close>

lemma parse_statusBody:
  "status \<noteq> PENDING \<Longrightarrow> parseUpdateDocumentStatus (statusBody status reason) = Some (status, reason)"
  by (cases status; cases reason) (simp_all add: parseUpdateDocumentStatus_def statusBody_def)

lemma parse_statusBody_PENDING:
  "parseUpdateDocumentStatus (statusBody PENDING reason) = None"
  by (cases reason) (simp_all add: parseUpdateDocumentStatus_def statusBody_def)


lemma updateDocumentStatus_run:
  assumes "status \<noteq> PENDING"
    and "find (\<lambda>d. d_id d = docId) (documents db) = Some doc"
    and "find (\<lambda>c. c_id c = d_clientId doc) (clients db) = Some c"
    and "\<exists>a \<in> set (clients db). c_id a = adminId"
    and "newId env 0 \<notin> l_id ` set (adminActivityLogs db)"
  shows "updateDocumentStatus env adminId docId (statusBody status reason) db =
     (Inr \<lparr>dr_data = review env status reason doc,
           dr_message = ''Document '' @ (if status = APPROVED then ''approved'' else ''rejected'')\<rparr>,
      db\<lparr>documents := map (\<lambda>d. if d_id d = docId then review env status reason d else d) (documents db),
         adminActivityLogs := adminActivityLogs db @ [reviewLog env adminId docId status reason doc c]\<rparr>)"
proof -
  have fresh: "\<not> (\<exists>l \<in> set (adminActivityLogs db). l_id l = newId env 0)"
    using assms(5) by (auto intro: rev_image_eqI)
  show ?thesis
    using assms(2-4) fresh parse_statusBody [OF assms(1), of reason]
    by (simp add: updateDocumentStatus_def logAdminActivity_def updateMany_def Let_def
        review_def reviewLog_def)
qed


lemma find_map_same_key:
  assumes "\<And>d. d_id (f d) = d_id d"
  shows "find (\<lambda>d. d_id d = k) (map (\<lambda>d. if d_id d = k then f d else d) xs) =
         map_option f (find (\<lambda>d. d_id d = k) xs)"
  using assms by (induction xs) auto

lemma review_keeps [simp]:
  "d_id (review env status reason d) = d_id d"
  "d_clientId (review env status reason d) = d_clientId d"
  "d_fileName (review env status reason d) = d_fileName d"
  "d_verificationStatus (review env status reason d) = status"
  "d_verifiedAt (review env status reason d) = Some (clock env)"
  by (simp_all add: review_def)

text \<open>
  Claim C7. For an existing document (whose client exists), an admin who is a client, an
  unused log id, a status APPROVED or REJECTED and an optional reason,
  \<open>updateDocumentStatus\<close> succeeds; every document with that id gets the status and
  \<open>verifiedAt\<close> = now; its rejection reason becomes the given one when the status is REJECTED
  (it stays what it was when REJECTED comes without a reason) and null otherwise; all other
  documents are unchanged; and exactly one row is appended to the activity log. Two
  successive APPROVED requests for the same document both succeed, leave it APPROVED, and
  append two rows.
\<close>

theorem updateDocumentStatus_effect:
  "(status \<noteq> PENDING \<and>
    find (\<lambda>d. d_id d = docId) (documents db) = Some doc \<and>
    find (\<lambda>c. c_id c = d_clientId doc) (clients db) = Some c \<and>
    (\<exists>a \<in> set (clients db). c_id a = adminId) \<and>
    newId env 0 \<notin> l_id ` set (adminActivityLogs db)
    \<longrightarrow>
      fst (updateDocumentStatus env adminId docId (statusBody status reason) db) =
        Inr \<lparr>dr_data = review env status reason doc,
             dr_message = ''Document '' @ (if status = APPROVED then ''approved'' else ''rejected'')\<rparr> \<and>
      documents (snd (updateDocumentStatus env adminId docId (statusBody status reason) db)) =
        map (\<lambda>d. if d_id d = docId then review env status reason d else d) (documents db) \<and>
      adminActivityLogs (snd (updateDocumentStatus env adminId docId (statusBody status reason) db)) =
        adminActivityLogs db @ [reviewLog env adminId docId status reason doc c] \<and>
      d_verificationStatus (review env status reason doc) = status \<and>
      d_verifiedAt (review env status reason doc) = Some (clock env) \<and>
      d_rejectionReason (review env status reason doc) =
        (if status = REJECTED
         then (case reason of None \<Rightarrow> d_rejectionReason doc | Some r \<Rightarrow> Some r)
         else None))
   \<and>
   (find (\<lambda>d. d_id d = docId) (documents db) = Some doc \<and>
    find (\<lambda>c. c_id c = d_clientId doc) (clients db) = Some c \<and>
    (\<exists>a \<in> set (clients db). c_id a = adminId) \<and>
    newId env 0 \<notin> l_id ` set (adminActivityLogs db) \<and>
    newId env2 0 \<notin> l_id ` set (adminActivityLogs db) \<and>
    newId env2 0 \<noteq> newId env 0
    \<longrightarrow>
      fst (updateDocumentStatus env2 adminId docId (statusBody APPROVED None)
             (snd (updateDocumentStatus env adminId docId (statusBody APPROVED None) db))) =
        Inr \<lparr>dr_data = review env2 APPROVED None (review env APPROVED None doc),
             dr_message = ''Document approved''\<rparr> \<and>
      d_verificationStatus (review env2 APPROVED None (review env APPROVED None doc)) = APPROVED \<and>
      adminActivityLogs
          (snd (updateDocumentStatus env2 adminId docId (statusBody APPROVED None)
             (snd (updateDocumentStatus env adminId docId (statusBody APPROVED None) db)))) =
        adminActivityLogs db @
          [reviewLog env adminId docId APPROVED None doc c,
           reviewLog env2 adminId docId APPROVED None (review env APPROVED None doc) c])"
proof (intro conjI impI)
  assume a: "status \<noteq> PENDING \<and>
    find (\<lambda>d. d_id d = docId) (documents db) = Some doc \<and>
    find (\<lambda>c. c_id c = d_clientId doc) (clients db) = Some c \<and>
    (\<exists>a \<in> set (clients db). c_id a = adminId) \<and>
    newId env 0 \<notin> l_id ` set (adminActivityLogs db)"
  then have run: "updateDocumentStatus env adminId docId (statusBody status reason) db =
     (Inr \<lparr>dr_data = review env status reason doc,
           dr_message = ''Document '' @ (if status = APPROVED then ''approved'' else ''rejected'')\<rparr>,
      db\<lparr>documents := map (\<lambda>d. if d_id d = docId then review env status reason d else d) (documents db),
         adminActivityLogs := adminActivityLogs db @ [reviewLog env adminId docId status reason doc c]\<rparr>)"
    using updateDocumentStatus_run [of status docId db doc c adminId env reason] by blast
  show "fst (updateDocumentStatus env adminId docId (statusBody status reason) db) =
        Inr \<lparr>dr_data = review env status reason doc,
             dr_message = ''Document '' @ (if status = APPROVED then ''approved'' else ''rejected'')\<rparr>"
    and "documents (snd (updateDocumentStatus env adminId docId (statusBody status reason) db)) =
        map (\<lambda>d. if d_id d = docId then review env status reason d else d) (documents db)"
    and "adminActivityLogs (snd (updateDocumentStatus env adminId docId (statusBody status reason) db)) =
        adminActivityLogs db @ [reviewLog env adminId docId status reason doc c]"
    by (simp_all add: run)
  show "d_verificationStatus (review env status reason doc) = status"
    and "d_verifiedAt (review env status reason doc) = Some (clock env)"
    and "d_rejectionReason (review env status reason doc) =
        (if status = REJECTED
         then (case reason of None \<Rightarrow> d_rejectionReason doc | Some r \<Rightarrow> Some r)
         else None)"
    by (simp_all add: review_def)
next
  assume a: "find (\<lambda>d. d_id d = docId) (documents db) = Some doc \<and>
    find (\<lambda>c. c_id c = d_clientId doc) (clients db) = Some c \<and>
    (\<exists>a \<in> set (clients db). c_id a = adminId) \<and>
    newId env 0 \<notin> l_id ` set (adminActivityLogs db) \<and>
    newId env2 0 \<notin> l_id ` set (adminActivityLogs db) \<and>
    newId env2 0 \<noteq> newId env 0"
  let ?db1 = "db\<lparr>documents := map (\<lambda>d. if d_id d = docId then review env APPROVED None d else d) (documents db),
         adminActivityLogs := adminActivityLogs db @ [reviewLog env adminId docId APPROVED None doc c]\<rparr>"
  have run1: "updateDocumentStatus env adminId docId (statusBody APPROVED None) db =
     (Inr \<lparr>dr_data = review env APPROVED None doc, dr_message = ''Document approved''\<rparr>, ?db1)"
    using a updateDocumentStatus_run [of APPROVED docId db doc c adminId env None] by simp
  have f1: "find (\<lambda>d. d_id d = docId) (documents ?db1) = Some (review env APPROVED None doc)"
    using a by (simp add: find_map_same_key)
  have fresh2: "newId env2 0 \<notin> l_id ` set (adminActivityLogs ?db1)"
    using a by (simp add: reviewLog_def)
  have run2: "updateDocumentStatus env2 adminId docId (statusBody APPROVED None) ?db1 =
     (Inr \<lparr>dr_data = review env2 APPROVED None (review env APPROVED None doc),
           dr_message = ''Document approved''\<rparr>,
      ?db1\<lparr>documents := map (\<lambda>d. if d_id d = docId then review env2 APPROVED None d else d) (documents ?db1),
         adminActivityLogs := adminActivityLogs ?db1 @
           [reviewLog env2 adminId docId APPROVED None (review env APPROVED None doc) c]\<rparr>)"
    using a f1 fresh2
      updateDocumentStatus_run [of APPROVED docId ?db1 "review env APPROVED None doc" c adminId env2 None]
    by simp
  show "fst (updateDocumentStatus env2 adminId docId (statusBody APPROVED None)
             (snd (updateDocumentStatus env adminId docId (statusBody APPROVED None) db))) =
        Inr \<lparr>dr_data = review env2 APPROVED None (review env APPROVED None doc),
             dr_message = ''Document approved''\<rparr>"
    unfolding run1 snd_conv run2 by simp
  show "d_verificationStatus (review env2 APPROVED None (review env APPROVED None doc)) = APPROVED"
    by simp
  show "adminActivityLogs
          (snd (updateDocumentStatus env2 adminId docId (statusBody APPROVED None)
             (snd (updateDocumentStatus env adminId docId (statusBody APPROVED None) db)))) =
        adminActivityLogs db @
          [reviewLog env adminId docId APPROVED None doc c,
           reviewLog env2 adminId docId APPROVED None (review env APPROVED None doc) c]"
    unfolding run1 snd_conv run2 by simp
qed


text \<open>On \<open>reviewDb\<close>: the pending document rejected with a reason; the pending document
  approved twice.\<close>

theorem updateDocumentStatus_effect_witness:
  "find (\<lambda>d. d_id d = ''docA'') (documents reviewDb) = Some docA \<and>
   find (\<lambda>c. c_id c = d_clientId docA) (clients reviewDb) = Some alice \<and>
   map d_verificationStatus
     (documents (snd (updateDocumentStatus (plainEnv 7000 ''x'' []) ''adm'' ''docA''
        (statusBody REJECTED (Some ''blurred'')) reviewDb))) = [REJECTED, APPROVED, PENDING] \<and>
   map d_rejectionReason
     (documents (snd (updateDocumentStatus (plainEnv 7000 ''x'' []) ''adm'' ''docA''
        (statusBody REJECTED (Some ''blurred'')) reviewDb))) = [Some ''blurred'', None, None] \<and>
   map l_action
     (adminActivityLogs (snd (updateDocumentStatus (plainEnv 7000 ''x'' []) ''adm'' ''docA''
        (statusBody REJECTED (Some ''blurred'')) reviewDb))) = [''REJECT_DOCUMENT''] \<and>
   map d_verificationStatus
     (documents (snd (updateDocumentStatus (plainEnv 8000 ''y'' []) ''adm'' ''docA''
        (statusBody APPROVED None)
        (snd (updateDocumentStatus (plainEnv 7000 ''x'' []) ''adm'' ''docA''
           (statusBody APPROVED None) reviewDb))))) = [APPROVED, APPROVED, PENDING] \<and>
   map l_action
     (adminActivityLogs (snd (updateDocumentStatus (plainEnv 8000 ''y'' []) ''adm'' ''docA''
        (statusBody APPROVED None)
        (snd (updateDocumentStatus (plainEnv 7000 ''x'' []) ''adm'' ''docA''
           (statusBody APPROVED None) reviewDb))))) = [''APPROVE_DOCUMENT'', ''APPROVE_DOCUMENT'']"
proof -
  let ?e1 = "plainEnv 7000 ''x'' []" and ?e2 = "plainEnv 8000 ''y'' []"
  have f: "find (\<lambda>d. d_id d = ''docA'') (documents reviewDb) = Some docA"
    by (simp add: review_defs)
  have g: "find (\<lambda>c. c_id c = d_clientId docA) (clients reviewDb) = Some alice"
    by (simp add: review_defs)
  have h: "(\<exists>a \<in> set (clients reviewDb). c_id a = ''adm'') \<and>
      newId ?e1 0 \<notin> l_id ` set (adminActivityLogs reviewDb) \<and>
      newId ?e2 0 \<notin> l_id ` set (adminActivityLogs reviewDb) \<and> newId ?e2 0 \<noteq> newId ?e1 0"
    by (simp add: review_defs)
  note t = updateDocumentStatus_effect [of _ "''docA''" reviewDb docA alice "''adm''" ?e1 _ ?e2]
  from t [of REJECTED "Some ''blurred''"] f g h
  have a1: "documents (snd (updateDocumentStatus ?e1 ''adm'' ''docA''
        (statusBody REJECTED (Some ''blurred'')) reviewDb)) =
      map (\<lambda>d. if d_id d = ''docA'' then review ?e1 REJECTED (Some ''blurred'') d else d)
        (documents reviewDb)"
    and a2: "adminActivityLogs (snd (updateDocumentStatus ?e1 ''adm'' ''docA''
        (statusBody REJECTED (Some ''blurred'')) reviewDb)) =
      adminActivityLogs reviewDb @
        [reviewLog ?e1 ''adm'' ''docA'' REJECTED (Some ''blurred'') docA alice]"
    by simp_all
  from t [of APPROVED None] f g h
  have a3: "adminActivityLogs
          (snd (updateDocumentStatus ?e2 ''adm'' ''docA'' (statusBody APPROVED None)
             (snd (updateDocumentStatus ?e1 ''adm'' ''docA'' (statusBody APPROVED None) reviewDb)))) =
        adminActivityLogs reviewDb @
          [reviewLog ?e1 ''adm'' ''docA'' APPROVED None docA alice,
           reviewLog ?e2 ''adm'' ''docA'' APPROVED None (review ?e1 APPROVED None docA) alice]"
    by simp
  have a4: "map d_verificationStatus
     (documents (snd (updateDocumentStatus ?e2 ''adm'' ''docA'' (statusBody APPROVED None)
        (snd (updateDocumentStatus ?e1 ''adm'' ''docA'' (statusBody APPROVED None) reviewDb))))) =
     [APPROVED, APPROVED, PENDING]"
    by (simp add: admin_defs review_defs)
  from f g a4 show ?thesis
    unfolding a1 a2 a3 by (simp add: review_defs review_def reviewLog_def)
qed



lemma logAdminActivity_documents:
  "logAdminActivity env adminId action targetType targetId details db = Inr db2
    \<Longrightarrow> documents db2 = documents db"
  by (auto simp: logAdminActivity_def split: if_splits)













section \<open>Bulk approval\<close>

lemma asStrings_map: "asStrings (map JStr ids) = Some ids"
  by (induction ids) simp_all

lemma parse_bulkBody: "parseBulkApprove (bulkBody ids) = (if ids = [] then None else Some ids)"
  by (cases ids) (simp_all add: parseBulkApprove_def bulkBody_def asStrings_map)

lemma updateMany_selected:
  assumes "distinct (map key xs)"
  shows "map (\<lambda>d. if key d \<in> set (map key (filter P xs)) then f d else d) xs =
         map (\<lambda>d. if P d then f d else d) xs"
proof (rule map_cong [OF refl])
  fix d assume d: "d \<in> set xs"
  have "key d \<in> set (map key (filter P xs)) \<longleftrightarrow> P d"
  proof
    assume "key d \<in> set (map key (filter P xs))"
    then obtain x where x: "x \<in> set xs" "P x" "key x = key d"
      by auto
    with assms d have "x = d"
      by (auto simp: distinct_map dest: inj_onD)
    with x show "P d"
      by simp
  next
    assume "P d"
    with d show "key d \<in> set (map key (filter P xs))"
      by auto
  qed
  then show "(if key d \<in> set (map key (filter P xs)) then f d else d) = (if P d then f d else d)"
    by simp
qed

lemma bulkApprove_none:
  assumes "pendingAmong ids db = []"
  shows "failsBadRequest (fst (bulkApproveDocuments env adminId (bulkBody ids) db)) \<and>
         snd (bulkApproveDocuments env adminId (bulkBody ids) db) = db"
  using assms
  by (cases "ids = []") (simp_all add: bulkApproveDocuments_def parse_bulkBody pendingAmong_def Let_def)

lemma bulkApprove_run:
  assumes "pendingAmong ids db \<noteq> []"
    and "distinct (map d_id (documents db))"
    and "\<exists>a \<in> set (clients db). c_id a = adminId"
    and "newId env 0 \<notin> l_id ` set (adminActivityLogs db)"
  shows "bulkApproveDocuments env adminId (bulkBody ids) db =
     (Inr \<lparr>br_message = showNat (length (pendingAmong ids db)) @ '' document(s) approved'',
           br_approvedCount = length (pendingAmong ids db)\<rparr>,
      db\<lparr>documents :=
           map (\<lambda>d. if d_id d \<in> set ids \<and> d_verificationStatus d = PENDING then approve env d else d)
             (documents db),
         adminActivityLogs := adminActivityLogs db @ [bulkLog env adminId (pendingAmong ids db)]\<rparr>)"
proof -
  from assms(1) have ne: "ids \<noteq> []"
    by (auto simp: pendingAmong_def)
  have fresh: "\<not> (\<exists>l \<in> set (adminActivityLogs db). l_id l = newId env 0)"
    using assms(4) by (auto intro: rev_image_eqI)
  have sel: "map (\<lambda>d. if d_id d \<in> set (map d_id (pendingAmong ids db)) then approve env d else d)
               (documents db) =
             map (\<lambda>d. if d_id d \<in> set ids \<and> d_verificationStatus d = PENDING then approve env d else d)
               (documents db)"
    unfolding pendingAmong_def by (rule updateMany_selected [OF assms(2)])
  have "bulkApproveDocuments env adminId (bulkBody ids) db =
     (Inr \<lparr>br_message = showNat (length (pendingAmong ids db)) @ '' document(s) approved'',
           br_approvedCount = length (pendingAmong ids db)\<rparr>,
      db\<lparr>documents :=
           map (\<lambda>d. if d_id d \<in> set (map d_id (pendingAmong ids db)) then approve env d else d)
             (documents db),
         adminActivityLogs := adminActivityLogs db @ [bulkLog env adminId (pendingAmong ids db)]\<rparr>)"
    using assms(1,3) ne fresh
    by (simp add: bulkApproveDocuments_def parse_bulkBody logAdminActivity_def updateMany_def
        Let_def bulkLog_def pendingAmong_def [symmetric] approve_def [symmetric])
  then show ?thesis
    by (simp only: sel)
qed

lemma pendingAmong_card:
  assumes "distinct (map d_id (documents db))"
  shows "length (pendingAmong ids db) =
         card {d \<in> set (documents db). d_id d \<in> set ids \<and> d_verificationStatus d = PENDING}"
proof -
  from assms have "distinct (documents db)"
    by (simp add: distinct_map)
  then have "distinct (pendingAmong ids db)"
    by (simp add: pendingAmong_def)
  then have "card (set (pendingAmong ids db)) = length (pendingAmong ids db)"
    by (rule distinct_card)
  then show ?thesis
    by (simp add: pendingAmong_def)
qed

text \<open>
  Claim C6. Let the document ids be unique, the admin a client and the log id unused. If
  some document named in the list is PENDING, \<open>bulkApproveDocuments\<close> succeeds; exactly the
  documents that are named and PENDING become APPROVED with \<open>verifiedAt\<close> = now, every other
  document is unchanged; \<open>approvedCount\<close> is their number; and one BULK_APPROVE row with
  the count and their ids is appended to the log. If no named document is PENDING, the
  request fails BadRequest and nothing changes.
\<close>

theorem bulkApprove_exactly_pending:
  "(pendingAmong ids db \<noteq> [] \<and> distinct (map d_id (documents db)) \<and>
    (\<exists>a \<in> set (clients db). c_id a = adminId) \<and>
    newId env 0 \<notin> l_id ` set (adminActivityLogs db)
    \<longrightarrow>
      fst (bulkApproveDocuments env adminId (bulkBody ids) db) =
        Inr \<lparr>br_message = showNat (length (pendingAmong ids db)) @ '' document(s) approved'',
             br_approvedCount = length (pendingAmong ids db)\<rparr> \<and>
      length (pendingAmong ids db) =
        card {d \<in> set (documents db). d_id d \<in> set ids \<and> d_verificationStatus d = PENDING} \<and>
      documents (snd (bulkApproveDocuments env adminId (bulkBody ids) db)) =
        map (\<lambda>d. if d_id d \<in> set ids \<and> d_verificationStatus d = PENDING then approve env d else d)
          (documents db) \<and>
      adminActivityLogs (snd (bulkApproveDocuments env adminId (bulkBody ids) db)) =
        adminActivityLogs db @ [bulkLog env adminId (pendingAmong ids db)])
   \<and>
   (pendingAmong ids db = []
    \<longrightarrow> failsBadRequest (fst (bulkApproveDocuments env adminId (bulkBody ids) db)) \<and>
        snd (bulkApproveDocuments env adminId (bulkBody ids) db) = db)"
proof (intro conjI impI)
  assume a: "pendingAmong ids db \<noteq> [] \<and> distinct (map d_id (documents db)) \<and>
    (\<exists>a \<in> set (clients db). c_id a = adminId) \<and>
    newId env 0 \<notin> l_id ` set (adminActivityLogs db)"
  then have run: "bulkApproveDocuments env adminId (bulkBody ids) db =
     (Inr \<lparr>br_message = showNat (length (pendingAmong ids db)) @ '' document(s) approved'',
           br_approvedCount = length (pendingAmong ids db)\<rparr>,
      db\<lparr>documents :=
           map (\<lambda>d. if d_id d \<in> set ids \<and> d_verificationStatus d = PENDING then approve env d else d)
             (documents db),
         adminActivityLogs := adminActivityLogs db @ [bulkLog env adminId (pendingAmong ids db)]\<rparr>)"
    using bulkApprove_run [of ids db adminId env] by blast
  show "fst (bulkApproveDocuments env adminId (bulkBody ids) db) =
        Inr \<lparr>br_message = showNat (length (pendingAmong ids db)) @ '' document(s) approved'',
             br_approvedCount = length (pendingAmong ids db)\<rparr>"
    and "documents (snd (bulkApproveDocuments env adminId (bulkBody ids) db)) =
        map (\<lambda>d. if d_id d \<in> set ids \<and> d_verificationStatus d = PENDING then approve env d else d)
          (documents db)"
    and "adminActivityLogs (snd (bulkApproveDocuments env adminId (bulkBody ids) db)) =
        adminActivityLogs db @ [bulkLog env adminId (pendingAmong ids db)]"
    by (simp_all add: run)
  from a show "length (pendingAmong ids db) =
        card {d \<in> set (documents db). d_id d \<in> set ids \<and> d_verificationStatus d = PENDING}"
    using pendingAmong_card [of db ids] by blast
next
  assume "pendingAmong ids db = []"
  then show "failsBadRequest (fst (bulkApproveDocuments env adminId (bulkBody ids) db))"
    and "snd (bulkApproveDocuments env adminId (bulkBody ids) db) = db"
    by (simp_all add: bulkApprove_none)
qed


text \<open>On \<open>reviewDb\<close>: the three documents named, two of them pending; then only the
  approved one named.\<close>

theorem bulkApprove_exactly_pending_witness:
  "map d_verificationStatus (documents reviewDb) = [PENDING, APPROVED, PENDING] \<and>
   map d_id (pendingAmong [''docA'', ''docB'', ''docC''] reviewDb) = [''docA'', ''docC''] \<and>
   fst (bulkApproveDocuments (plainEnv 7000 ''x'' []) ''adm''
          (bulkBody [''docA'', ''docB'', ''docC'']) reviewDb) =
     Inr \<lparr>br_message = ''2 document(s) approved'', br_approvedCount = 2\<rparr> \<and>
   map d_verificationStatus
     (documents (snd (bulkApproveDocuments (plainEnv 7000 ''x'' []) ''adm''
        (bulkBody [''docA'', ''docB'', ''docC'']) reviewDb))) = [APPROVED, APPROVED, APPROVED] \<and>
   map d_verifiedAt
     (documents (snd (bulkApproveDocuments (plainEnv 7000 ''x'' []) ''adm''
        (bulkBody [''docA'', ''docB'', ''docC'']) reviewDb))) = [Some 7000, Some 6500, Some 7000] \<and>
   map l_details
     (adminActivityLogs (snd (bulkApproveDocuments (plainEnv 7000 ''x'' []) ''adm''
        (bulkBody [''docA'', ''docB'', ''docC'']) reviewDb))) =
     [Some (JObj [(''count'', JNum 2), (''documentIds'', JArr [JStr ''docA'', JStr ''docC''])])] \<and>
   pendingAmong [''docB''] reviewDb = [] \<and>
   failsBadRequest (fst (bulkApproveDocuments (plainEnv 7000 ''x'' []) ''adm'' (bulkBody [''docB'']) reviewDb)) \<and>
   snd (bulkApproveDocuments (plainEnv 7000 ''x'' []) ''adm'' (bulkBody [''docB'']) reviewDb) = reviewDb"
proof -
  let ?e = "plainEnv 7000 ''x'' []" and ?ids = "[''docA'', ''docB'', ''docC'']"
  have p: "pendingAmong ?ids reviewDb = [docA, docC]"
    by (simp add: pendingAmong_def review_defs)
  have q: "pendingAmong [''docB''] reviewDb = []"
    by (simp add: pendingAmong_def review_defs)
  have h: "pendingAmong ?ids reviewDb \<noteq> [] \<and> distinct (map d_id (documents reviewDb)) \<and>
    (\<exists>a \<in> set (clients reviewDb). c_id a = ''adm'') \<and>
    newId ?e 0 \<notin> l_id ` set (adminActivityLogs reviewDb)"
    unfolding p by (simp add: review_defs)
  from bulkApprove_exactly_pending [of ?ids reviewDb "''adm''" ?e] h
  have r: "fst (bulkApproveDocuments ?e ''adm'' (bulkBody ?ids) reviewDb) =
        Inr \<lparr>br_message = showNat (length (pendingAmong ?ids reviewDb)) @ '' document(s) approved'',
             br_approvedCount = length (pendingAmong ?ids reviewDb)\<rparr>"
    and d: "documents (snd (bulkApproveDocuments ?e ''adm'' (bulkBody ?ids) reviewDb)) =
        map (\<lambda>d. if d_id d \<in> set ?ids \<and> d_verificationStatus d = PENDING then approve ?e d else d)
          (documents reviewDb)"
    and l: "adminActivityLogs (snd (bulkApproveDocuments ?e ''adm'' (bulkBody ?ids) reviewDb)) =
        adminActivityLogs reviewDb @ [bulkLog ?e ''adm'' (pendingAmong ?ids reviewDb)]"
    by blast+
  from bulkApprove_exactly_pending [of "[''docB'']" reviewDb "''adm''" ?e] q
  have n: "failsBadRequest (fst (bulkApproveDocuments ?e ''adm'' (bulkBody [''docB'']) reviewDb)) \<and>
        snd (bulkApproveDocuments ?e ''adm'' (bulkBody [''docB'']) reviewDb) = reviewDb"
    by blast
  have s: "map d_verificationStatus (documents reviewDb) = [PENDING, APPROVED, PENDING]"
    by (simp add: review_defs)
  from n q s show ?thesis
    unfolding r d l p by (simp add: review_defs approve_def bulkLog_def)
qed


section \<open>Onboarding steps\<close>

lemma textArg_ok:
  "textOrAbsent x \<Longrightarrow> \<exists>v. textArg (orUndefined x) = Inr v"
  by (cases "orUndefined x")
     (auto simp: textOrAbsent_def textArg_def split: json.splits)

lemma updateProfileFromStep_ok:
  assumes "profileFieldsOk data" and "\<exists>c \<in> set (clients db). c_id c = clientId"
  shows "\<exists>cs. updateProfileFromStep clientId data db = Inr (db\<lparr>clients := cs\<rparr>)"
proof -
  from assms(1) obtain a b c d where
    "textArg (orUndefined (dataField ''firstName'' data)) = Inr a"
    "textArg (orUndefined (dataField ''lastName'' data)) = Inr b"
    "textArg (orUndefined (dataField ''companyName'' data)) = Inr c"
    "textArg (orUndefined (dataField ''phone'' data)) = Inr d"
    unfolding profileFieldsOk_def using textArg_ok by metis
  with assms(2) show ?thesis
    by (auto simp: updateProfileFromStep_def)
qed

lemma merge_result:
  assumes "mergeAccepted clientId stepNumber data db"
  shows "\<exists>cs. (if stepNumber = 1 \<and> orUndefined data \<noteq> None
               then updateProfileFromStep clientId data db else Inr db) = Inr (db\<lparr>clients := cs\<rparr>)"
proof (cases "stepNumber = 1 \<and> orUndefined data \<noteq> None")
  case True
  with assms updateProfileFromStep_ok [of data db clientId] show ?thesis
    by (simp add: mergeAccepted_def)
next
  case False
  have "db = db\<lparr>clients := clients db\<rparr>"
    by simp
  with False show ?thesis
    by (metis (full_types))
qed

lemma completeStep_ahead:
  assumes "find (\<lambda>s. s_stepNumber s = stepNumber) (onboardingSteps db) = Some step"
    and "find (\<lambda>p. p_clientId p = clientId) (onboardingProgress db) = Some progress"
    and "stepNumber > p_currentStep progress"
  shows "completeStep env clientId stepNumber data db =
           (Inl (badRequest ''Cannot complete a step ahead of current progress''), db)"
  using assms by (simp add: completeStep_def getOrCreateProgress_def)

lemma completeStep_unfold:
  assumes "find (\<lambda>s. s_stepNumber s = stepNumber) (onboardingSteps db) = Some step"
    and "find (\<lambda>p. p_clientId p = clientId) (onboardingProgress db) = Some progress"
    and "\<not> stepNumber > p_currentStep progress"
    and "upsertCompleted env (p_id progress) (s_id step) data (stepProgress db) = Inr rows"
  shows "completeStep env clientId stepNumber data db =
     (case (if stepNumber = 1 \<and> orUndefined data \<noteq> None
            then updateProfileFromStep clientId data (progressed env stepNumber progress rows db)
            else Inr (progressed env stepNumber progress rows db)) of
        Inl e \<Rightarrow> (Inl e, progressed env stepNumber progress rows db)
      | Inr db4 \<Rightarrow>
          (case find (\<lambda>p. p_clientId p = clientId) (onboardingProgress db4) of
             None \<Rightarrow> (Inl TypeError, db4)
           | Some updatedProgress \<Rightarrow>
               (Inr \<lparr>cr_message = completedMessage stepNumber (int (length (onboardingSteps db))),
                     cr_currentStep = p_currentStep updatedProgress,
                     cr_status = p_status updatedProgress,
                     cr_completedAt = p_completedAt updatedProgress\<rparr>,
                db4)))"
proof -
  have sel: "onboardingSteps (db\<lparr>stepProgress := rows\<rparr>) = onboardingSteps db"
    "onboardingProgress (db\<lparr>stepProgress := rows\<rparr>) = onboardingProgress db"
    by simp_all
  have db3: "db\<lparr>stepProgress := rows\<rparr>\<lparr>onboardingProgress :=
          updateMany (\<lambda>p. p_id p = p_id progress)
            (\<lambda>p. p\<lparr>p_currentStep := (if stepNumber = int (length (onboardingSteps db)) then stepNumber
                                      else min (stepNumber + 1) (int (length (onboardingSteps db)))),
                   p_status := (if stepNumber = int (length (onboardingSteps db)) then OS_COMPLETED else OS_IN_PROGRESS),
                   p_completedAt := (if stepNumber = int (length (onboardingSteps db)) then Some (clock env) else None)\<rparr>)
            (onboardingProgress db)\<rparr> = progressed env stepNumber progress rows db"
    by (simp add: progressed_def updateMany_def completedProgress_def)
  have msg: "(if stepNumber = int (length (onboardingSteps db)) then ''Onboarding completed!''
      else ''Step '' @ showInt stepNumber @ '' completed. Proceed to step ''
             @ showInt (min (stepNumber + 1) (int (length (onboardingSteps db)))) @ ''.'') =
      completedMessage stepNumber (int (length (onboardingSteps db)))"
    by (simp only: completedMessage_def)
  show ?thesis
    by (simp only: completeStep_def getOrCreateProgress_def assms option.case sum.case
        prod.case Let_def if_False sel db3 msg)
qed


lemma find_map_keep:
  assumes "\<And>x. P (f x) = P x"
  shows "find P (map (\<lambda>x. if Q x then f x else x) xs) =
         map_option (\<lambda>x. if Q x then f x else x) (find P xs)"
  using assms by (induction xs) auto

lemma upsertCompleted_ok:
  assumes "(\<exists>r \<in> set rows. stepRow progress step r) \<or> newId env 1 \<notin> sp_id ` set rows"
  shows "\<exists>rows'. upsertCompleted env (p_id progress) (s_id step) data rows = Inr rows' \<and>
           (\<exists>r \<in> set rows'. stepRow progress step r) \<and>
           (\<forall>r \<in> set rows'. stepRow progress step r \<longrightarrow> completedRow env data r)"
proof (cases "\<exists>r \<in> set rows. stepRow progress step r")
  case True
  define g where "g = (\<lambda>r. if stepRow progress step r
       then r\<lparr>sp_data := (case orUndefined data of None \<Rightarrow> sp_data r | Some v \<Rightarrow> Some v),
              sp_status := SS_COMPLETED, sp_completedAt := Some (clock env)\<rparr>
       else r)"
  have run: "upsertCompleted env (p_id progress) (s_id step) data rows = Inr (map g rows)"
    using True by (simp add: upsertCompleted_def updateMany_def stepRow_def g_def)
  have key: "\<And>x. stepRow progress step (g x) = stepRow progress step x"
    by (simp add: g_def stepRow_def)
  have compl: "\<And>x. stepRow progress step x \<Longrightarrow> completedRow env data (g x)"
    by (simp add: g_def completedRow_def split: option.splits)
  from True obtain r where r: "r \<in> set rows" "stepRow progress step r"
    by blast
  then have one: "\<exists>x \<in> set (map g rows). stepRow progress step x"
    using key by auto
  have all: "\<forall>x \<in> set (map g rows). stepRow progress step x \<longrightarrow> completedRow env data x"
    using key compl by auto
  from run one all show ?thesis
    by blast
next
  case False
  with assms have fresh: "\<not> (\<exists>r \<in> set rows. sp_id r = newId env 1)"
    by (auto intro: rev_image_eqI)
  let ?new = "\<lparr>sp_id = newId env 1, sp_onboardingProgressId = p_id progress,
                  sp_onboardingStepId = s_id step, sp_status = SS_COMPLETED,
                  sp_data = orUndefined data, sp_completedAt = Some (clock env)\<rparr>"
  from False have nokey: "\<not> (\<exists>r \<in> set rows.
      sp_onboardingProgressId r = p_id progress \<and> sp_onboardingStepId r = s_id step)"
    by (simp add: stepRow_def)
  have run: "upsertCompleted env (p_id progress) (s_id step) data rows = Inr (rows @ [?new])"
    by (simp only: upsertCompleted_def nokey fresh if_False)
  have new: "stepRow progress step ?new" "completedRow env data ?new"
    by (simp_all add: stepRow_def completedRow_def split: option.splits)
  from False new have all: "\<forall>x \<in> set (rows @ [?new]). stepRow progress step x \<longrightarrow> completedRow env data x"
    by auto
  from new have one: "\<exists>x \<in> set (rows @ [?new]). stepRow progress step x"
    by simp
  from run one all show ?thesis
    by blast
qed

lemma progressed_fields [simp]:
  "stepProgress (progressed env stepNumber progress rows db) = rows"
  "onboardingSteps (progressed env stepNumber progress rows db) = onboardingSteps db"
  "clients (progressed env stepNumber progress rows db) = clients db"
  by (simp_all add: progressed_def)

lemma find_progressed:
  assumes "find (\<lambda>p. p_clientId p = clientId) (onboardingProgress db) = Some progress"
  shows "find (\<lambda>p. p_clientId p = clientId)
           (onboardingProgress (progressed env stepNumber progress rows db)) =
         Some (completedProgress env stepNumber (int (length (onboardingSteps db))) progress)"
proof -
  have keep: "\<And>x. (p_clientId (completedProgress env stepNumber (int (length (onboardingSteps db))) x) = clientId)
      = (p_clientId x = clientId)"
    by (simp add: completedProgress_def)
  show ?thesis
    unfolding progressed_def
    by (simp add: find_map_keep [where P = "\<lambda>p. p_clientId p = clientId", OF keep] assms)
qed

lemma updateMany_profile_ids:
  "map c_id (updateMany P
      (\<lambda>c. c\<lparr>c_firstName := a c, c_lastName := b c, c_companyName := d c, c_phone := e c\<rparr>) cs) =
   map c_id cs"
  by (induction cs) (simp_all add: updateMany_def)

lemma updateProfileFromStep_frame:
  assumes "updateProfileFromStep clientId data db = Inr db'"
  shows "onboardingProgress db' = onboardingProgress db \<and> stepProgress db' = stepProgress db \<and>
         onboardingSteps db' = onboardingSteps db \<and> map c_id (clients db') = map c_id (clients db)"
  using assms
  by (auto simp: updateProfileFromStep_def updateMany_profile_ids split: sum.splits if_splits)

lemma merge_frame:
  assumes "(if stepNumber = 1 \<and> orUndefined data \<noteq> None
            then updateProfileFromStep clientId data db else Inr db) = Inr db'"
  shows "onboardingProgress db' = onboardingProgress db \<and> stepProgress db' = stepProgress db \<and>
         onboardingSteps db' = onboardingSteps db \<and> map c_id (clients db') = map c_id (clients db)"
proof (cases "stepNumber = 1 \<and> orUndefined data \<noteq> None")
  case True
  with assms have "updateProfileFromStep clientId data db = Inr db'"
    by simp
  then show ?thesis
    by (rule updateProfileFromStep_frame)
next
  case False
  with assms show ?thesis
    by auto
qed

lemma mergeAccepted_progressed:
  "mergeAccepted clientId stepNumber data (progressed env s progress rows db) =
   mergeAccepted clientId stepNumber data db"
  unfolding mergeAccepted_def progressed_fields by (rule refl)

lemma completeStep_effect:
  assumes step: "find (\<lambda>s. s_stepNumber s = stepNumber) (onboardingSteps db) = Some step"
    and prog: "find (\<lambda>p. p_clientId p = clientId) (onboardingProgress db) = Some progress"
    and le: "stepNumber \<le> p_currentStep progress"
    and ups: "(\<exists>r \<in> set (stepProgress db). stepRow progress step r) \<or>
              newId env 1 \<notin> sp_id ` set (stepProgress db)"
  shows "find (\<lambda>p. p_clientId p = clientId)
           (onboardingProgress (snd (completeStep env clientId stepNumber data db))) =
         Some (completedProgress env stepNumber (int (length (onboardingSteps db))) progress)"
    and "onboardingSteps (snd (completeStep env clientId stepNumber data db)) = onboardingSteps db"
    and "\<exists>x \<in> set (stepProgress (snd (completeStep env clientId stepNumber data db))).
           stepRow progress step x"
    and "\<forall>x \<in> set (stepProgress (snd (completeStep env clientId stepNumber data db))).
           stepRow progress step x \<longrightarrow> completedRow env data x"
    and "map c_id (clients (snd (completeStep env clientId stepNumber data db))) = map c_id (clients db)"
    and "mergeAccepted clientId stepNumber data db \<Longrightarrow>
         fst (completeStep env clientId stepNumber data db) =
           Inr \<lparr>cr_message = completedMessage stepNumber (int (length (onboardingSteps db))),
                cr_currentStep =
                  p_currentStep (completedProgress env stepNumber (int (length (onboardingSteps db))) progress),
                cr_status =
                  p_status (completedProgress env stepNumber (int (length (onboardingSteps db))) progress),
                cr_completedAt =
                  p_completedAt (completedProgress env stepNumber (int (length (onboardingSteps db))) progress)\<rparr>"
proof -
  let ?N = "int (length (onboardingSteps db))"
  let ?r = "completeStep env clientId stepNumber data db"
  from upsertCompleted_ok [OF ups, of data] obtain rows where
    rows: "upsertCompleted env (p_id progress) (s_id step) data (stepProgress db) = Inr rows"
    and one: "\<exists>r \<in> set rows. stepRow progress step r"
    and all: "\<forall>r \<in> set rows. stepRow progress step r \<longrightarrow> completedRow env data r"
    by blast
  let ?db3 = "progressed env stepNumber progress rows db"
  let ?m = "if stepNumber = 1 \<and> orUndefined data \<noteq> None
            then updateProfileFromStep clientId data ?db3 else Inr ?db3"
  from le have nle: "\<not> stepNumber > p_currentStep progress"
    by simp
  note u = completeStep_unfold [OF step prog nle rows]
  note f3 = find_progressed [OF prog, of env stepNumber rows]
  have state: "find (\<lambda>p. p_clientId p = clientId) (onboardingProgress (snd ?r)) =
         Some (completedProgress env stepNumber ?N progress) \<and>
       onboardingSteps (snd ?r) = onboardingSteps db \<and> stepProgress (snd ?r) = rows \<and>
       map c_id (clients (snd ?r)) = map c_id (clients db)"
  proof (cases ?m)
    case (Inl e)
    then have "?r = (Inl e, ?db3)"
      unfolding u by simp
    with f3 show ?thesis
      by simp
  next
    case (Inr db4)
    from merge_frame [OF Inr] have fr: "onboardingProgress db4 = onboardingProgress ?db3"
      "stepProgress db4 = rows" "onboardingSteps db4 = onboardingSteps db"
      "map c_id (clients db4) = map c_id (clients db)"
      by simp_all
    from Inr f3 fr(1) have "snd ?r = db4"
      unfolding u by simp
    with f3 fr show ?thesis
      by simp
  qed
  from state show "find (\<lambda>p. p_clientId p = clientId) (onboardingProgress (snd ?r)) =
         Some (completedProgress env stepNumber ?N progress)"
    and "onboardingSteps (snd ?r) = onboardingSteps db"
    and "map c_id (clients (snd ?r)) = map c_id (clients db)"
    by simp_all
  from state one show "\<exists>x \<in> set (stepProgress (snd ?r)). stepRow progress step x"
    by simp
  from state all show "\<forall>x \<in> set (stepProgress (snd ?r)). stepRow progress step x \<longrightarrow> completedRow env data x"
    by simp
  assume "mergeAccepted clientId stepNumber data db"
  then have "mergeAccepted clientId stepNumber data ?db3"
    by (simp add: mergeAccepted_progressed)
  from merge_result [OF this] obtain cs where m: "?m = Inr (?db3\<lparr>clients := cs\<rparr>)"
    by blast
  have "find (\<lambda>p. p_clientId p = clientId) (onboardingProgress (?db3\<lparr>clients := cs\<rparr>)) =
      Some (completedProgress env stepNumber ?N progress)"
    using f3 by simp
  with m show "fst ?r =
           Inr \<lparr>cr_message = completedMessage stepNumber ?N,
                cr_currentStep = p_currentStep (completedProgress env stepNumber ?N progress),
                cr_status = p_status (completedProgress env stepNumber ?N progress),
                cr_completedAt = p_completedAt (completedProgress env stepNumber ?N progress)\<rparr>"
    unfolding u by simp
qed
lemma catalog_bound:
  assumes "catalogNumbered db"
    and "find (\<lambda>s. s_stepNumber s = stepNumber) (onboardingSteps db) = Some step"
  shows "stepNumber \<le> int (length (onboardingSteps db))"
proof -
  from find_SomeD [OF assms(2)] have "s_stepNumber step = stepNumber" "step \<in> set (onboardingSteps db)"
    by simp_all
  with assms(1) show ?thesis
    by (auto simp: catalogNumbered_def list_all_iff)
qed

lemma completedProgress_next:
  "stepNumber < totalSteps \<Longrightarrow>
   completedProgress env stepNumber totalSteps p =
     p\<lparr>p_currentStep := stepNumber + 1, p_status := OS_IN_PROGRESS, p_completedAt := None\<rparr>"
  by (simp add: completedProgress_def)

lemma completedProgress_last:
  "completedProgress env totalSteps totalSteps p =
     p\<lparr>p_currentStep := totalSteps, p_status := OS_COMPLETED, p_completedAt := Some (clock env)\<rparr>"
  by (simp add: completedProgress_def)

lemma completedMessage_next:
  "stepNumber < totalSteps \<Longrightarrow>
   completedMessage stepNumber totalSteps =
     ''Step '' @ showInt stepNumber @ '' completed. Proceed to step '' @ showInt (stepNumber + 1) @ ''.''"
  by (simp add: completedMessage_def)

lemma mergeAccepted_same_ids:
  assumes "map c_id (clients db') = map c_id (clients db)"
  shows "mergeAccepted clientId stepNumber data db' = mergeAccepted clientId stepNumber data db"
proof -
  have "c_id ` set (clients db') = c_id ` set (clients db)"
    using assms by (metis set_map)
  then have eq: "(\<exists>c \<in> set (clients db'). c_id c = clientId) = (\<exists>c \<in> set (clients db). c_id c = clientId)"
    by (auto simp: image_iff set_eq_iff) metis+
  show ?thesis
    by (simp only: mergeAccepted_def eq)
qed

lemma onboarding_reaches_doneDb:
  "snd (completeStep (plainEnv 9100 ''c1'' []) ''u-0'' 1 None aliceDb) =
     aliceAt (aliceProgress 2 OS_IN_PROGRESS None) [doneRow ''c1-1'' ''s1'' 9100]"
  "snd (completeStep (plainEnv 9200 ''c2'' []) ''u-0'' 2 None
         (aliceAt (aliceProgress 2 OS_IN_PROGRESS None) [doneRow ''c1-1'' ''s1'' 9100])) =
     aliceAt (aliceProgress 3 OS_IN_PROGRESS None)
       [doneRow ''c1-1'' ''s1'' 9100, doneRow ''c2-1'' ''s2'' 9200]"
  "snd (completeStep (plainEnv 9300 ''c3'' []) ''u-0'' 3 None
         (aliceAt (aliceProgress 3 OS_IN_PROGRESS None)
            [doneRow ''c1-1'' ''s1'' 9100, doneRow ''c2-1'' ''s2'' 9200])) = lastStepDb"
  "snd (completeStep (plainEnv 9400 ''c4'' []) ''u-0'' 4 None lastStepDb) = doneDb"
  by (simp_all add: onboarding_defs alice_defs)

text \<open>
  The order of the steps. Let the client have a progress row with current step
  \<open>k\<close>. A request for a catalog step \<open>s > k\<close> fails BadRequest and changes nothing. For
  \<open>s = k\<close>, with the catalog numbered 1..N, \<open>k \<noteq> N\<close>, and the step row present or the id
  for a new one unused: the step rows of the client for step \<open>k\<close> exist and are COMPLETED
  at the time of the request with the payload given, and the progress row has current step
  \<open>k + 1\<close>, status IN_PROGRESS and no completion time; the request is answered with success
  (and these values) when \<open>mergeAccepted\<close> holds.
\<close>

theorem completeStep_ordering:
  "(find (\<lambda>s. s_stepNumber s = stepNumber) (onboardingSteps db) = Some step \<and>
    find (\<lambda>p. p_clientId p = clientId) (onboardingProgress db) = Some progress \<and>
    p_currentStep progress < stepNumber
    \<longrightarrow> failsBadRequest (fst (completeStep env clientId stepNumber data db)) \<and>
        snd (completeStep env clientId stepNumber data db) = db)
   \<and>
   (catalogNumbered db \<and>
    find (\<lambda>s. s_stepNumber s = stepNumber) (onboardingSteps db) = Some step \<and>
    find (\<lambda>p. p_clientId p = clientId) (onboardingProgress db) = Some progress \<and>
    p_currentStep progress = stepNumber \<and>
    stepNumber \<noteq> int (length (onboardingSteps db)) \<and>
    ((\<exists>r \<in> set (stepProgress db). stepRow progress step r) \<or>
     newId env 1 \<notin> sp_id ` set (stepProgress db))
    \<longrightarrow>
      find (\<lambda>p. p_clientId p = clientId)
        (onboardingProgress (snd (completeStep env clientId stepNumber data db))) =
        Some (progress\<lparr>p_currentStep := stepNumber + 1, p_status := OS_IN_PROGRESS,
                       p_completedAt := None\<rparr>) \<and>
      (\<exists>x \<in> set (stepProgress (snd (completeStep env clientId stepNumber data db))).
          stepRow progress step x) \<and>
      (\<forall>x \<in> set (stepProgress (snd (completeStep env clientId stepNumber data db))).
          stepRow progress step x \<longrightarrow> completedRow env data x) \<and>
      (mergeAccepted clientId stepNumber data db \<longrightarrow>
         fst (completeStep env clientId stepNumber data db) =
           Inr \<lparr>cr_message = ''Step '' @ showInt stepNumber @ '' completed. Proceed to step ''
                               @ showInt (stepNumber + 1) @ ''.'',
                cr_currentStep = stepNumber + 1, cr_status = OS_IN_PROGRESS,
                cr_completedAt = None\<rparr>))"
proof (intro conjI impI)
  assume "find (\<lambda>s. s_stepNumber s = stepNumber) (onboardingSteps db) = Some step \<and>
    find (\<lambda>p. p_clientId p = clientId) (onboardingProgress db) = Some progress \<and>
    p_currentStep progress < stepNumber"
  then have "completeStep env clientId stepNumber data db =
           (Inl (badRequest ''Cannot complete a step ahead of current progress''), db)"
    using completeStep_ahead [of stepNumber db step clientId progress env data] by blast
  then show "failsBadRequest (fst (completeStep env clientId stepNumber data db))"
    and "snd (completeStep env clientId stepNumber data db) = db"
    by simp_all
next
  let ?N = "int (length (onboardingSteps db))"
  assume a: "catalogNumbered db \<and>
    find (\<lambda>s. s_stepNumber s = stepNumber) (onboardingSteps db) = Some step \<and>
    find (\<lambda>p. p_clientId p = clientId) (onboardingProgress db) = Some progress \<and>
    p_currentStep progress = stepNumber \<and>
    stepNumber \<noteq> int (length (onboardingSteps db)) \<and>
    ((\<exists>r \<in> set (stepProgress db). stepRow progress step r) \<or>
     newId env 1 \<notin> sp_id ` set (stepProgress db))"
  then have step: "find (\<lambda>s. s_stepNumber s = stepNumber) (onboardingSteps db) = Some step"
    and prog: "find (\<lambda>p. p_clientId p = clientId) (onboardingProgress db) = Some progress"
    and ups: "(\<exists>r \<in> set (stepProgress db). stepRow progress step r) \<or>
              newId env 1 \<notin> sp_id ` set (stepProgress db)"
    by blast+
  from a have le: "stepNumber \<le> p_currentStep progress"
    by linarith
  from a catalog_bound [of db stepNumber step] have lt: "stepNumber < ?N"
    by simp
  note e = completeStep_effect [OF step prog le ups, where data = data]
  show "find (\<lambda>p. p_clientId p = clientId)
        (onboardingProgress (snd (completeStep env clientId stepNumber data db))) =
        Some (progress\<lparr>p_currentStep := stepNumber + 1, p_status := OS_IN_PROGRESS,
                       p_completedAt := None\<rparr>)"
    using e(1) by (simp add: completedProgress_next [OF lt])
  show "\<exists>x \<in> set (stepProgress (snd (completeStep env clientId stepNumber data db))).
          stepRow progress step x"
    by (rule e(3))
  show "\<forall>x \<in> set (stepProgress (snd (completeStep env clientId stepNumber data db))).
          stepRow progress step x \<longrightarrow> completedRow env data x"
    by (rule e(4))
  assume "mergeAccepted clientId stepNumber data db"
  from e(6) [OF this]
  show "fst (completeStep env clientId stepNumber data db) =
           Inr \<lparr>cr_message = ''Step '' @ showInt stepNumber @ '' completed. Proceed to step ''
                               @ showInt (stepNumber + 1) @ ''.'',
                cr_currentStep = stepNumber + 1, cr_status = OS_IN_PROGRESS,
                cr_completedAt = None\<rparr>"
    by (simp add: completedProgress_next [OF lt] completedMessage_next [OF lt])
qed

text \<open>On \<open>aliceDb\<close>, current step 1: step 3 is refused; step 1 with a first name and an
  empty phone is completed.\<close>

theorem completeStep_ordering_witness:
  "find (\<lambda>s. s_stepNumber s = 3) (onboardingSteps aliceDb) = Some (seedSteps ! 2) \<and>
   find (\<lambda>p. p_clientId p = ''u-0'') (onboardingProgress aliceDb) =
     Some (aliceProgress 1 OS_PENDING None) \<and>
   failsBadRequest (fst (completeStep (plainEnv 9100 ''c1'' []) ''u-0'' 3 None aliceDb)) \<and>
   snd (completeStep (plainEnv 9100 ''c1'' []) ''u-0'' 3 None aliceDb) = aliceDb \<and>
   catalogNumbered aliceDb \<and>
   mergeAccepted ''u-0'' 1 (Some (JObj [(''firstName'', JStr ''Alice''), (''phone'', JStr '''')])) aliceDb \<and>
   fst (completeStep (plainEnv 9100 ''c1'' []) ''u-0'' 1
          (Some (JObj [(''firstName'', JStr ''Alice''), (''phone'', JStr '''')])) aliceDb) =
     Inr \<lparr>cr_message = ''Step 1 completed. Proceed to step 2.'', cr_currentStep = 2,
          cr_status = OS_IN_PROGRESS, cr_completedAt = None\<rparr> \<and>
   find (\<lambda>p. p_clientId p = ''u-0'')
     (onboardingProgress (snd (completeStep (plainEnv 9100 ''c1'' []) ''u-0'' 1
        (Some (JObj [(''firstName'', JStr ''Alice''), (''phone'', JStr '''')])) aliceDb))) =
     Some (aliceProgress 2 OS_IN_PROGRESS None) \<and>
   stepProgress (snd (completeStep (plainEnv 9100 ''c1'' []) ''u-0'' 1
        (Some (JObj [(''firstName'', JStr ''Alice''), (''phone'', JStr '''')])) aliceDb)) =
     [\<lparr>sp_id = ''c1-1'', sp_onboardingProgressId = ''u-1'', sp_onboardingStepId = ''s1'',
       sp_status = SS_COMPLETED,
       sp_data = Some (JObj [(''firstName'', JStr ''Alice''), (''phone'', JStr '''')]),
       sp_completedAt = Some 9100\<rparr>] \<and>
   map c_firstName (clients (snd (completeStep (plainEnv 9100 ''c1'' []) ''u-0'' 1
        (Some (JObj [(''firstName'', JStr ''Alice''), (''phone'', JStr '''')])) aliceDb))) = [''Alice'']"
proof -
  let ?env = "plainEnv 9100 ''c1'' []"
  let ?p = "aliceProgress 1 OS_PENDING None"
  let ?d = "Some (JObj [(''firstName'', JStr ''Alice''), (''phone'', JStr '''')])"
  have s3: "find (\<lambda>s. s_stepNumber s = 3) (onboardingSteps aliceDb) = Some (seedSteps ! 2)"
    and s1: "find (\<lambda>s. s_stepNumber s = 1) (onboardingSteps aliceDb) = Some (seedSteps ! 0)"
    by (simp_all add: alice_defs)
  have p: "find (\<lambda>p. p_clientId p = ''u-0'') (onboardingProgress aliceDb) = Some ?p"
    by (simp add: alice_defs)
  have c: "catalogNumbered aliceDb"
    by (simp add: catalogNumbered_def alice_defs)
  have m: "mergeAccepted ''u-0'' 1 ?d aliceDb"
    by (simp add: mergeAccepted_def profileFieldsOk_def textOrAbsent_def dataField_def
        orUndefined_def alice_defs)
  have k: "p_currentStep ?p < 3" "p_currentStep ?p = 1" "(1::int) \<noteq> int (length (onboardingSteps aliceDb))"
    by (simp_all add: alice_defs)
  have u: "(\<exists>r \<in> set (stepProgress aliceDb). stepRow ?p (seedSteps ! 0) r) \<or>
      newId ?env 1 \<notin> sp_id ` set (stepProgress aliceDb)"
    by (simp add: alice_defs)
  from completeStep_ordering [of 3 aliceDb "seedSteps ! 2" "''u-0''" ?p ?env None] s3 p k
  have a: "failsBadRequest (fst (completeStep ?env ''u-0'' 3 None aliceDb)) \<and>
        snd (completeStep ?env ''u-0'' 3 None aliceDb) = aliceDb"
    by blast
  from completeStep_ordering [of 1 aliceDb "seedSteps ! 0" "''u-0''" ?p ?env ?d] s1 p k c m u
  have b: "find (\<lambda>p. p_clientId p = ''u-0'')
        (onboardingProgress (snd (completeStep ?env ''u-0'' 1 ?d aliceDb))) =
        Some (?p\<lparr>p_currentStep := 1 + 1, p_status := OS_IN_PROGRESS, p_completedAt := None\<rparr>) \<and>
      fst (completeStep ?env ''u-0'' 1 ?d aliceDb) =
           Inr \<lparr>cr_message = ''Step '' @ showInt 1 @ '' completed. Proceed to step ''
                               @ showInt (1 + 1) @ ''.'',
                cr_currentStep = 1 + 1, cr_status = OS_IN_PROGRESS, cr_completedAt = None\<rparr>"
    by blast
  have rows: "stepProgress (snd (completeStep ?env ''u-0'' 1 ?d aliceDb)) =
     [\<lparr>sp_id = ''c1-1'', sp_onboardingProgressId = ''u-1'', sp_onboardingStepId = ''s1'',
       sp_status = SS_COMPLETED, sp_data = ?d, sp_completedAt = Some 9100\<rparr>]"
    by (simp add: onboarding_defs alice_defs)
  have names: "map c_firstName (clients (snd (completeStep ?env ''u-0'' 1 ?d aliceDb))) = [''Alice'']"
    by (simp add: onboarding_defs alice_defs)
  from s3 p a c m b rows names show ?thesis
    by (simp add: aliceProgress_def showInt_def showNat.simps)
qed

text \<open>
  Claim C4: completing the current step succeeds. The body of the request is checked to be
  an object and no further, and on step 1 the handler hands its four profile fields to
  the update of the client once the step row and the progress are written. Here the
  client is at step 1 and the payload is \<open>{firstName: 5}\<close>: the update refuses the number,
  the request is answered with status 500, and the step is COMPLETED with the current
  step already 2.
\<close>

theorem step1_payload_counterexample:
  "map p_currentStep (onboardingProgress aliceDb) = [1] \<and>
   fst (completeStep (plainEnv 9100 ''c1'' []) ''u-0'' 1
          (Some (JObj [(''firstName'', JNum 5)])) aliceDb) = Inl PrismaClientValidationError \<and>
   errorHandler PrismaClientValidationError = (500, ''INTERNAL_ERROR'') \<and>
   onboardingProgress (snd (completeStep (plainEnv 9100 ''c1'' []) ''u-0'' 1
          (Some (JObj [(''firstName'', JNum 5)])) aliceDb)) =
     [aliceProgress 2 OS_IN_PROGRESS None] \<and>
   map sp_status (stepProgress (snd (completeStep (plainEnv 9100 ''c1'' []) ''u-0'' 1
          (Some (JObj [(''firstName'', JNum 5)])) aliceDb))) = [SS_COMPLETED]"
  by (simp add: onboarding_defs alice_defs)

text \<open>
  The final step. Let \<open>N\<close> be the number of catalog steps, a step numbered \<open>N\<close> exist, the
  client's progress have current step \<open>N\<close>, and the step row be present or the id for a new
  one unused. After \<open>completeStep(N)\<close> the progress has status COMPLETED, the time of the
  request as completion time and current step \<open>N\<close>; after a second \<open>completeStep(N)\<close> it
  has status COMPLETED, the time of the second request and current step \<open>N\<close>. Each request
  is answered with success when \<open>mergeAccepted\<close> holds for its payload, which it does
  whenever \<open>N \<noteq> 1\<close>.
\<close>

theorem completeStep_final:
  "find (\<lambda>s. s_stepNumber s = stepNumber) (onboardingSteps db) = Some step \<and>
   stepNumber = int (length (onboardingSteps db)) \<and>
   find (\<lambda>p. p_clientId p = clientId) (onboardingProgress db) = Some progress \<and>
   p_currentStep progress = stepNumber \<and>
   ((\<exists>r \<in> set (stepProgress db). stepRow progress step r) \<or>
    newId env 1 \<notin> sp_id ` set (stepProgress db))
   \<longrightarrow>
     find (\<lambda>p. p_clientId p = clientId)
       (onboardingProgress (snd (completeStep env clientId stepNumber data db))) =
       Some (progress\<lparr>p_currentStep := stepNumber, p_status := OS_COMPLETED,
                      p_completedAt := Some (clock env)\<rparr>) \<and>
     (mergeAccepted clientId stepNumber data db \<longrightarrow>
        fst (completeStep env clientId stepNumber data db) =
          Inr \<lparr>cr_message = ''Onboarding completed!'', cr_currentStep = stepNumber,
               cr_status = OS_COMPLETED, cr_completedAt = Some (clock env)\<rparr>) \<and>
     find (\<lambda>p. p_clientId p = clientId)
       (onboardingProgress (snd (completeStep env2 clientId stepNumber data2
          (snd (completeStep env clientId stepNumber data db))))) =
       Some (progress\<lparr>p_currentStep := stepNumber, p_status := OS_COMPLETED,
                      p_completedAt := Some (clock env2)\<rparr>) \<and>
     (mergeAccepted clientId stepNumber data2 db \<longrightarrow>
        fst (completeStep env2 clientId stepNumber data2
          (snd (completeStep env clientId stepNumber data db))) =
          Inr \<lparr>cr_message = ''Onboarding completed!'', cr_currentStep = stepNumber,
               cr_status = OS_COMPLETED, cr_completedAt = Some (clock env2)\<rparr>)"
proof (intro impI)
  let ?N = "int (length (onboardingSteps db))"
  let ?db1 = "snd (completeStep env clientId stepNumber data db)"
  let ?p1 = "progress\<lparr>p_currentStep := stepNumber, p_status := OS_COMPLETED,
                      p_completedAt := Some (clock env)\<rparr>"
  assume a: "find (\<lambda>s. s_stepNumber s = stepNumber) (onboardingSteps db) = Some step \<and>
   stepNumber = int (length (onboardingSteps db)) \<and>
   find (\<lambda>p. p_clientId p = clientId) (onboardingProgress db) = Some progress \<and>
   p_currentStep progress = stepNumber \<and>
   ((\<exists>r \<in> set (stepProgress db). stepRow progress step r) \<or>
    newId env 1 \<notin> sp_id ` set (stepProgress db))"
  then have step: "find (\<lambda>s. s_stepNumber s = stepNumber) (onboardingSteps db) = Some step"
    and last: "stepNumber = ?N"
    and prog: "find (\<lambda>p. p_clientId p = clientId) (onboardingProgress db) = Some progress"
    and ups: "(\<exists>r \<in> set (stepProgress db). stepRow progress step r) \<or>
              newId env 1 \<notin> sp_id ` set (stepProgress db)"
    by blast+
  from a have le: "stepNumber \<le> p_currentStep progress"
    by linarith
  note e = completeStep_effect [OF step prog le ups, where data = data]
  have p1: "find (\<lambda>p. p_clientId p = clientId) (onboardingProgress ?db1) = Some ?p1"
    using e(1) last completedProgress_last [of env ?N progress] by simp
  have r1: "mergeAccepted clientId stepNumber data db \<longrightarrow>
        fst (completeStep env clientId stepNumber data db) =
          Inr \<lparr>cr_message = ''Onboarding completed!'', cr_currentStep = stepNumber,
               cr_status = OS_COMPLETED, cr_completedAt = Some (clock env)\<rparr>"
    using e(6) last completedProgress_last [of env ?N progress]
    by (simp add: completedMessage_def)
  have step1: "find (\<lambda>s. s_stepNumber s = stepNumber) (onboardingSteps ?db1) = Some step"
    using step e(2) by simp
  have le1: "stepNumber \<le> p_currentStep ?p1"
    by simp
  have key: "\<And>x. stepRow ?p1 step x = stepRow progress step x"
    by (simp add: stepRow_def)
  have ups1: "(\<exists>r \<in> set (stepProgress ?db1). stepRow ?p1 step r) \<or>
              newId env2 1 \<notin> sp_id ` set (stepProgress ?db1)"
    using e(3) by (simp add: key)
  note e2 = completeStep_effect [OF step1 p1 le1 ups1, where data = data2]
  have last1: "stepNumber = int (length (onboardingSteps ?db1))"
    using last e(2) by simp
  have p2: "find (\<lambda>p. p_clientId p = clientId)
       (onboardingProgress (snd (completeStep env2 clientId stepNumber data2 ?db1))) =
       Some (progress\<lparr>p_currentStep := stepNumber, p_status := OS_COMPLETED,
                      p_completedAt := Some (clock env2)\<rparr>)"
    using e2(1) last1 completedProgress_last [of env2 "int (length (onboardingSteps ?db1))" ?p1]
    by simp
  have m: "mergeAccepted clientId stepNumber data2 ?db1 = mergeAccepted clientId stepNumber data2 db"
    by (rule mergeAccepted_same_ids [OF e(5)])
  have r2: "mergeAccepted clientId stepNumber data2 db \<longrightarrow>
        fst (completeStep env2 clientId stepNumber data2 ?db1) =
          Inr \<lparr>cr_message = ''Onboarding completed!'', cr_currentStep = stepNumber,
               cr_status = OS_COMPLETED, cr_completedAt = Some (clock env2)\<rparr>"
    using e2(6) last1 completedProgress_last [of env2 "int (length (onboardingSteps ?db1))" ?p1]
    by (simp add: completedMessage_def m)
  from p1 r1 p2 r2
  show "find (\<lambda>p. p_clientId p = clientId) (onboardingProgress ?db1) = Some ?p1 \<and>
     (mergeAccepted clientId stepNumber data db \<longrightarrow>
        fst (completeStep env clientId stepNumber data db) =
          Inr \<lparr>cr_message = ''Onboarding completed!'', cr_currentStep = stepNumber,
               cr_status = OS_COMPLETED, cr_completedAt = Some (clock env)\<rparr>) \<and>
     find (\<lambda>p. p_clientId p = clientId)
       (onboardingProgress (snd (completeStep env2 clientId stepNumber data2 ?db1))) =
       Some (progress\<lparr>p_currentStep := stepNumber, p_status := OS_COMPLETED,
                      p_completedAt := Some (clock env2)\<rparr>) \<and>
     (mergeAccepted clientId stepNumber data2 db \<longrightarrow>
        fst (completeStep env2 clientId stepNumber data2 ?db1) =
          Inr \<lparr>cr_message = ''Onboarding completed!'', cr_currentStep = stepNumber,
               cr_status = OS_COMPLETED, cr_completedAt = Some (clock env2)\<rparr>)"
    by blast
qed

text \<open>On \<open>lastStepDb\<close>: step 4 completed, and completed again with another payload.\<close>

theorem completeStep_final_witness:
  "find (\<lambda>s. s_stepNumber s = 4) (onboardingSteps lastStepDb) = Some (seedSteps ! 3) \<and>
   int (length (onboardingSteps lastStepDb)) = 4 \<and>
   find (\<lambda>p. p_clientId p = ''u-0'') (onboardingProgress lastStepDb) =
     Some (aliceProgress 4 OS_IN_PROGRESS None) \<and>
   fst (completeStep (plainEnv 9400 ''c4'' []) ''u-0'' 4 None lastStepDb) =
     Inr \<lparr>cr_message = ''Onboarding completed!'', cr_currentStep = 4,
          cr_status = OS_COMPLETED, cr_completedAt = Some 9400\<rparr> \<and>
   snd (completeStep (plainEnv 9400 ''c4'' []) ''u-0'' 4 None lastStepDb) = doneDb \<and>
   fst (completeStep (plainEnv 9500 ''c5'' []) ''u-0'' 4 (Some (JObj [(''termsAccepted'', JBool True)]))
          doneDb) =
     Inr \<lparr>cr_message = ''Onboarding completed!'', cr_currentStep = 4,
          cr_status = OS_COMPLETED, cr_completedAt = Some 9500\<rparr> \<and>
   find (\<lambda>p. p_clientId p = ''u-0'')
     (onboardingProgress (snd (completeStep (plainEnv 9500 ''c5'' []) ''u-0'' 4
        (Some (JObj [(''termsAccepted'', JBool True)])) doneDb))) =
     Some (aliceProgress 4 OS_COMPLETED (Some 9500))"
proof -
  let ?e1 = "plainEnv 9400 ''c4'' []" and ?e2 = "plainEnv 9500 ''c5'' []"
  let ?p = "aliceProgress 4 OS_IN_PROGRESS None"
  let ?d2 = "Some (JObj [(''termsAccepted'', JBool True)])"
  have s: "find (\<lambda>s. s_stepNumber s = 4) (onboardingSteps lastStepDb) = Some (seedSteps ! 3)"
    by (simp add: alice_defs)
  have l: "int (length (onboardingSteps lastStepDb)) = 4"
    by (simp add: alice_defs)
  have p: "find (\<lambda>p. p_clientId p = ''u-0'') (onboardingProgress lastStepDb) = Some ?p"
    by (simp add: alice_defs)
  have u: "(\<exists>r \<in> set (stepProgress lastStepDb). stepRow ?p (seedSteps ! 3) r) \<or>
      newId ?e1 1 \<notin> sp_id ` set (stepProgress lastStepDb)"
    by (simp add: alice_defs showNat.simps)
  have m: "mergeAccepted ''u-0'' 4 None lastStepDb" "mergeAccepted ''u-0'' 4 ?d2 lastStepDb"
    by (simp_all add: mergeAccepted_def)
  have k: "p_currentStep ?p = 4"
    by (simp add: aliceProgress_def)
  have d: "snd (completeStep ?e1 ''u-0'' 4 None lastStepDb) = doneDb"
    by (rule onboarding_reaches_doneDb(4))
  from l have l': "(4::int) = int (length (onboardingSteps lastStepDb))"
    by simp
  from completeStep_final [of 4 lastStepDb "seedSteps ! 3" "''u-0''" ?p ?e1 None ?e2 ?d2] s l' p u m k
  have c: "fst (completeStep ?e1 ''u-0'' 4 None lastStepDb) =
          Inr \<lparr>cr_message = ''Onboarding completed!'', cr_currentStep = 4,
               cr_status = OS_COMPLETED, cr_completedAt = Some (clock ?e1)\<rparr> \<and>
     find (\<lambda>p. p_clientId p = ''u-0'')
       (onboardingProgress (snd (completeStep ?e2 ''u-0'' 4 ?d2
          (snd (completeStep ?e1 ''u-0'' 4 None lastStepDb))))) =
       Some (?p\<lparr>p_currentStep := 4, p_status := OS_COMPLETED, p_completedAt := Some (clock ?e2)\<rparr>) \<and>
     fst (completeStep ?e2 ''u-0'' 4 ?d2 (snd (completeStep ?e1 ''u-0'' 4 None lastStepDb))) =
          Inr \<lparr>cr_message = ''Onboarding completed!'', cr_currentStep = 4,
               cr_status = OS_COMPLETED, cr_completedAt = Some (clock ?e2)\<rparr>"
    by blast
  from s l p d c show ?thesis
    by (simp add: aliceProgress_def plainEnv_def)
qed


text \<open>
  Claim C2, as the code has it. Let the client's current step be \<open>c \<le> N\<close>, and \<open>j < c\<close> a
  catalog step whose row is COMPLETED. After \<open>completeStep(j)\<close> the step rows for \<open>j\<close> are
  COMPLETED at the time of the request with the payload given, and the progress row has
  current step \<open>j + 1\<close>, status IN_PROGRESS and no completion time, whatever they were; the
  request is answered with success when \<open>mergeAccepted\<close> holds.
\<close>

theorem completeStep_earlier_step:
  "find (\<lambda>s. s_stepNumber s = stepNumber) (onboardingSteps db) = Some step \<and>
   find (\<lambda>p. p_clientId p = clientId) (onboardingProgress db) = Some progress \<and>
   stepNumber < p_currentStep progress \<and>
   p_currentStep progress \<le> int (length (onboardingSteps db)) \<and>
   (\<exists>r \<in> set (stepProgress db). stepRow progress step r \<and> sp_status r = SS_COMPLETED)
   \<longrightarrow>
     find (\<lambda>p. p_clientId p = clientId)
       (onboardingProgress (snd (completeStep env clientId stepNumber data db))) =
       Some (progress\<lparr>p_currentStep := stepNumber + 1, p_status := OS_IN_PROGRESS,
                      p_completedAt := None\<rparr>) \<and>
     (\<exists>x \<in> set (stepProgress (snd (completeStep env clientId stepNumber data db))).
         stepRow progress step x) \<and>
     (\<forall>x \<in> set (stepProgress (snd (completeStep env clientId stepNumber data db))).
         stepRow progress step x \<longrightarrow> completedRow env data x) \<and>
     (mergeAccepted clientId stepNumber data db \<longrightarrow>
        fst (completeStep env clientId stepNumber data db) =
          Inr \<lparr>cr_message = ''Step '' @ showInt stepNumber @ '' completed. Proceed to step ''
                              @ showInt (stepNumber + 1) @ ''.'',
               cr_currentStep = stepNumber + 1, cr_status = OS_IN_PROGRESS,
               cr_completedAt = None\<rparr>)"
proof (intro impI)
  let ?N = "int (length (onboardingSteps db))"
  assume a: "find (\<lambda>s. s_stepNumber s = stepNumber) (onboardingSteps db) = Some step \<and>
   find (\<lambda>p. p_clientId p = clientId) (onboardingProgress db) = Some progress \<and>
   stepNumber < p_currentStep progress \<and>
   p_currentStep progress \<le> int (length (onboardingSteps db)) \<and>
   (\<exists>r \<in> set (stepProgress db). stepRow progress step r \<and> sp_status r = SS_COMPLETED)"
  then have step: "find (\<lambda>s. s_stepNumber s = stepNumber) (onboardingSteps db) = Some step"
    and prog: "find (\<lambda>p. p_clientId p = clientId) (onboardingProgress db) = Some progress"
    and ups: "(\<exists>r \<in> set (stepProgress db). stepRow progress step r) \<or>
              newId env 1 \<notin> sp_id ` set (stepProgress db)"
    by blast+
  from a have le: "stepNumber \<le> p_currentStep progress" and lt: "stepNumber < ?N"
    by linarith+
  note e = completeStep_effect [OF step prog le ups, where data = data]
  have p: "find (\<lambda>p. p_clientId p = clientId)
       (onboardingProgress (snd (completeStep env clientId stepNumber data db))) =
       Some (progress\<lparr>p_currentStep := stepNumber + 1, p_status := OS_IN_PROGRESS,
                      p_completedAt := None\<rparr>)"
    using e(1) by (simp add: completedProgress_next [OF lt])
  have r: "mergeAccepted clientId stepNumber data db \<longrightarrow>
        fst (completeStep env clientId stepNumber data db) =
          Inr \<lparr>cr_message = ''Step '' @ showInt stepNumber @ '' completed. Proceed to step ''
                              @ showInt (stepNumber + 1) @ ''.'',
               cr_currentStep = stepNumber + 1, cr_status = OS_IN_PROGRESS,
               cr_completedAt = None\<rparr>"
    using e(6) by (simp add: completedProgress_next [OF lt] completedMessage_next [OF lt])
  from p e(3) e(4) r
  show "find (\<lambda>p. p_clientId p = clientId)
       (onboardingProgress (snd (completeStep env clientId stepNumber data db))) =
       Some (progress\<lparr>p_currentStep := stepNumber + 1, p_status := OS_IN_PROGRESS,
                      p_completedAt := None\<rparr>) \<and>
     (\<exists>x \<in> set (stepProgress (snd (completeStep env clientId stepNumber data db))).
         stepRow progress step x) \<and>
     (\<forall>x \<in> set (stepProgress (snd (completeStep env clientId stepNumber data db))).
         stepRow progress step x \<longrightarrow> completedRow env data x) \<and>
     (mergeAccepted clientId stepNumber data db \<longrightarrow>
        fst (completeStep env clientId stepNumber data db) =
          Inr \<lparr>cr_message = ''Step '' @ showInt stepNumber @ '' completed. Proceed to step ''
                              @ showInt (stepNumber + 1) @ ''.'',
               cr_currentStep = stepNumber + 1, cr_status = OS_IN_PROGRESS,
               cr_completedAt = None\<rparr>)"
    by blast
qed

text \<open>On \<open>doneDb\<close>, current step 4: step 1 completed again, and step 3 completed again.\<close>

theorem completeStep_earlier_step_witness:
  "find (\<lambda>s. s_stepNumber s = 1) (onboardingSteps doneDb) = Some (seedSteps ! 0) \<and>
   find (\<lambda>p. p_clientId p = ''u-0'') (onboardingProgress doneDb) =
     Some (aliceProgress 4 OS_COMPLETED (Some 9400)) \<and>
   mergeAccepted ''u-0'' 1 None doneDb \<and>
   fst (completeStep (plainEnv 9900 ''d'' []) ''u-0'' 1 None doneDb) =
     Inr \<lparr>cr_message = ''Step 1 completed. Proceed to step 2.'', cr_currentStep = 2,
          cr_status = OS_IN_PROGRESS, cr_completedAt = None\<rparr> \<and>
   find (\<lambda>p. p_clientId p = ''u-0'')
     (onboardingProgress (snd (completeStep (plainEnv 9900 ''d'' []) ''u-0'' 1 None doneDb))) =
     Some (aliceProgress 2 OS_IN_PROGRESS None) \<and>
   fst (completeStep (plainEnv 9900 ''d'' []) ''u-0'' 3 None doneDb) =
     Inr \<lparr>cr_message = ''Step 3 completed. Proceed to step 4.'', cr_currentStep = 4,
          cr_status = OS_IN_PROGRESS, cr_completedAt = None\<rparr>"
proof -
  let ?env = "plainEnv 9900 ''d'' []"
  let ?p = "aliceProgress 4 OS_COMPLETED (Some 9400)"
  have s1: "find (\<lambda>s. s_stepNumber s = 1) (onboardingSteps doneDb) = Some (seedSteps ! 0)"
    and s3: "find (\<lambda>s. s_stepNumber s = 3) (onboardingSteps doneDb) = Some (seedSteps ! 2)"
    by (simp_all add: alice_defs)
  have p: "find (\<lambda>p. p_clientId p = ''u-0'') (onboardingProgress doneDb) = Some ?p"
    by (simp add: alice_defs)
  have r1: "\<exists>r \<in> set (stepProgress doneDb). stepRow ?p (seedSteps ! 0) r \<and> sp_status r = SS_COMPLETED"
    and r3: "\<exists>r \<in> set (stepProgress doneDb). stepRow ?p (seedSteps ! 2) r \<and> sp_status r = SS_COMPLETED"
    by (simp_all add: alice_defs stepRow_def)
  have n: "(1::int) < p_currentStep ?p" "(3::int) < p_currentStep ?p"
    "p_currentStep ?p \<le> int (length (onboardingSteps doneDb))"
    by (simp_all add: alice_defs)
  have m: "mergeAccepted ''u-0'' 1 None doneDb" "mergeAccepted ''u-0'' 3 None doneDb"
    by (simp_all add: mergeAccepted_def orUndefined_def)
  from completeStep_earlier_step [of 1 doneDb "seedSteps ! 0" "''u-0''" ?p ?env None] s1 p r1 n m
  have c1: "find (\<lambda>p. p_clientId p = ''u-0'')
       (onboardingProgress (snd (completeStep ?env ''u-0'' 1 None doneDb))) =
       Some (?p\<lparr>p_currentStep := 1 + 1, p_status := OS_IN_PROGRESS, p_completedAt := None\<rparr>)"
    and c2: "fst (completeStep ?env ''u-0'' 1 None doneDb) =
          Inr \<lparr>cr_message = ''Step '' @ showInt 1 @ '' completed. Proceed to step ''
                              @ showInt (1 + 1) @ ''.'',
               cr_currentStep = 1 + 1, cr_status = OS_IN_PROGRESS, cr_completedAt = None\<rparr>"
    by blast+
  from completeStep_earlier_step [of 3 doneDb "seedSteps ! 2" "''u-0''" ?p ?env None] s3 p r3 n m
  have c3: "fst (completeStep ?env ''u-0'' 3 None doneDb) =
          Inr \<lparr>cr_message = ''Step '' @ showInt 3 @ '' completed. Proceed to step ''
                              @ showInt (3 + 1) @ ''.'',
               cr_currentStep = 3 + 1, cr_status = OS_IN_PROGRESS, cr_completedAt = None\<rparr>"
    by blast
  from s1 p m(1) c1 c2 c3 show ?thesis
    by (simp add: aliceProgress_def showInt_def showNat.simps)
qed

text \<open>
  Claim C2 as stated says that current step and status are left as they were. Here the
  onboarding is completed (current step 4, status COMPLETED) and step 1 is completed again:
  the current step becomes 2, the status IN_PROGRESS, and the completion time is cleared.
\<close>

theorem recompleting_regresses_counterexample:
  "map p_currentStep (onboardingProgress doneDb) = [4] \<and>
   map p_status (onboardingProgress doneDb) = [OS_COMPLETED] \<and>
   map sp_status (stepProgress doneDb) = [SS_COMPLETED, SS_COMPLETED, SS_COMPLETED, SS_COMPLETED] \<and>
   fst (completeStep (plainEnv 9900 ''d'' []) ''u-0'' 1 None doneDb) =
     Inr \<lparr>cr_message = ''Step 1 completed. Proceed to step 2.'', cr_currentStep = 2,
          cr_status = OS_IN_PROGRESS, cr_completedAt = None\<rparr> \<and>
   onboardingProgress (snd (completeStep (plainEnv 9900 ''d'' []) ''u-0'' 1 None doneDb)) =
     [aliceProgress 2 OS_IN_PROGRESS None]"
  by (simp add: onboarding_defs alice_defs)

end
